theory Spec2Isabelle
  imports Complex_Main
begin

section \<open>Trial synthesis for the cognitive tasks AntiReach and Reaching1D\<close>

text \<open>
  The development embeds \<^verbatim>\<open>brainpy_datasets/_src/cognitive/utils.py\<close> (the helper
  \<^verbatim>\<open>interval_of\<close>) and \<^verbatim>\<open>brainpy_datasets/_src/cognitive/others.py\<close> (the two tasks).

  Conventions of the embedding:
  \<^item> Python's unbounded integers are \<open>int\<close>; a Python or numpy float is a \<open>real\<close>
    (rounding of IEEE doubles is not modelled);
  \<^item> an exception is a value \<open>Inl e\<close> of the sum type \<open>error + 'a\<close>;
  \<^item> a dict is the list of its items in insertion order.
\<close>

subsection \<open>Errors\<close>

datatype error =
    ValueError string
  | ZeroDivisionError
  | IndexError
  | Raised string

text \<open>\<open>Raised\<close> stands for any exception of a user-supplied transform.\<close>

definition and_then :: "error + 'a \<Rightarrow> ('a \<Rightarrow> error + 'b) \<Rightarrow> error + 'b" where
  "and_then m f = (case m of Inl e \<Rightarrow> Inl e | Inr x \<Rightarrow> f x)"

subsection \<open>utils.py: interval_of\<close>

type_synonym layout = "(string \<times> int) list"

text \<open>
  The argument \<^verbatim>\<open>total\<close> is either a dict or a sequence of pairs;
  \<^verbatim>\<open>tuple(total.items())\<close> turns the dict into the sequence of its items.
\<close>

datatype periods = Dict layout | Seq layout

fun items :: "periods \<Rightarrow> layout" where
  "items (Dict kvs) = kvs"
| "items (Seq kvs) = kvs"

definition values_of :: "periods \<Rightarrow> int list" where
  "values_of d = map snd (items d)"

record slice =
  start :: int
  stop :: int

text \<open>
  The \<^verbatim>\<open>for k, v in total: ... else: raise ValueError('Not found')\<close> loop, with the
  running offset \<^verbatim>\<open>s\<close> as an accumulator.
\<close>

fun interval_loop :: "string \<Rightarrow> layout \<Rightarrow> int \<Rightarrow> error + slice" where
  "interval_loop elem [] s = Inl (ValueError ''Not found'')"
| "interval_loop elem ((k, v) # rest) s =
     (if k = elem then Inr \<lparr>start = s, stop = s + v\<rparr>
      else interval_loop elem rest (s + v))"

definition interval_of :: "string \<Rightarrow> periods \<Rightarrow> error + slice" where
  "interval_of elem tot = interval_loop elem (items tot) 0"

subsection \<open>Python and numpy primitives used by the tasks\<close>

text \<open>\<^verbatim>\<open>a / b\<close> on Python floats raises on a zero divisor.\<close>

definition truediv :: "real \<Rightarrow> real \<Rightarrow> error + real" where
  "truediv a b = (if b = 0 then Inl ZeroDivisionError else Inr (a / b))"

text \<open>
  \<^verbatim>\<open>int(x)\<close> of a float, and the cast numpy applies when a float is stored into an
  integer array: both drop the fractional part (round toward zero). The 64-bit range of
  the array's elements is not modelled; the values stored here lie in \<open>[0, 2 * pi]\<close>.
\<close>

definition py_int :: "real \<Rightarrow> int" where
  "py_int x = (if 0 \<le> x then \<lfloor>x\<rfloor> else \<lceil>x\<rceil>)"

text \<open>\<^verbatim>\<open>np.mod(a, b)\<close> on floats, for \<open>b \<noteq> 0\<close>: the remainder has the sign of \<open>b\<close>.\<close>

definition np_mod :: "real \<Rightarrow> real \<Rightarrow> real" where
  "np_mod a b = a - of_int \<lfloor>a / b\<rfloor> * b"

text \<open>
  \<^verbatim>\<open>np.arange(start, stop, step)\<close> has \<open>ceil((stop - start) / step)\<close> elements (none
  when that is negative); \<^verbatim>\<open>np.arange(n)\<close> is \<open>0, ..., n - 1\<close>.
\<close>

definition arange_real :: "real \<Rightarrow> real \<Rightarrow> real \<Rightarrow> real list" where
  "arange_real a b step = map (\<lambda>i. a + real i * step) [0..<nat \<lceil>(b - a) / step\<rceil>]"

definition arange :: "int \<Rightarrow> int list" where
  "arange n = map int [0..<nat n]"

text \<open>
  \<^verbatim>\<open>np.linspace(start, stop, num)\<close> with the end point included; a negative \<open>num\<close>
  raises.
\<close>

definition linspace :: "real \<Rightarrow> real \<Rightarrow> int \<Rightarrow> error + real list" where
  "linspace a b num =
     (if num < 0 then Inl (ValueError ''Number of samples must be non-negative'')
      else if num = 1 then Inr [a]
      else Inr (map (\<lambda>i. a + real i * ((b - a) / real_of_int (num - 1))) [0..<nat num]))"

text \<open>
  \<^verbatim>\<open>xs[i]\<close> on a one-dimensional array: an index from \<open>-len\<close> to \<open>-1\<close> addresses
  the array from its end, one outside \<open>[-len, len)\<close> raises.
\<close>

definition getitem :: "'a list \<Rightarrow> int \<Rightarrow> error + 'a" where
  "getitem xs i =
     (if 0 \<le> i \<and> i < int (length xs) then Inr (xs ! nat i)
      else if i < 0 \<and> - int (length xs) \<le> i then Inr (xs ! nat (int (length xs) + i))
      else Inl IndexError)"

text \<open>
  A two-dimensional float array: its shape and its rows. A one-dimensional integer array is
  an \<open>int list\<close>. \<^verbatim>\<open>np.zeros\<close> raises on a negative dimension.
\<close>

record ndarray =
  nrows :: nat
  ncols :: nat
  cells :: "real list list"

definition zeros2 :: "int \<Rightarrow> int \<Rightarrow> error + ndarray" where
  "zeros2 n m =
     (if n < 0 \<or> m < 0 then Inl (ValueError ''negative dimensions are not allowed'')
      else Inr \<lparr>nrows = nat n, ncols = nat m, cells = replicate (nat n) (replicate (nat m) 0)\<rparr>)"

definition zeros_int :: "int \<Rightarrow> error + int list" where
  "zeros_int n =
     (if n < 0 then Inl (ValueError ''negative dimensions are not allowed'')
      else Inr (replicate (nat n) 0))"

text \<open>
  The indices a slice \<^verbatim>\<open>slice(start, stop, None)\<close> selects on an axis of length \<open>n\<close>:
  a negative bound counts from the end, and both bounds are clipped to \<open>[0, n]\<close>.
\<close>

definition clip_index :: "int \<Rightarrow> nat \<Rightarrow> nat" where
  "clip_index i n = (if i < 0 then nat (max (i + int n) 0) else min (nat i) n)"

definition slice_indices :: "slice \<Rightarrow> nat \<Rightarrow> nat list" where
  "slice_indices sl n = [clip_index (start sl) n..<clip_index (stop sl) n]"

text \<open>\<^verbatim>\<open>X[s0, s1] += v\<close> for a scalar \<open>v\<close>.\<close>

definition iadd_scalar :: "ndarray \<Rightarrow> slice \<Rightarrow> slice \<Rightarrow> real \<Rightarrow> ndarray" where
  "iadd_scalar X s0 s1 v =
     X\<lparr>cells :=
         map (\<lambda>i. map (\<lambda>j.
                if i \<in> set (slice_indices s0 (nrows X)) \<and> j \<in> set (slice_indices s1 (ncols X))
                then cells X ! i ! j + v else cells X ! i ! j)
              [0..<ncols X])
           [0..<nrows X]\<rparr>"

text \<open>
  \<^verbatim>\<open>X[s0, s1] += vs\<close> for a one-dimensional \<open>vs\<close>: it is broadcast along the rows of the
  selected block when its length is the block's width or 1, and raises otherwise.
\<close>

definition iadd_vector :: "ndarray \<Rightarrow> slice \<Rightarrow> slice \<Rightarrow> real list \<Rightarrow> error + ndarray" where
  "iadd_vector X s0 s1 vs =
     (let J = slice_indices s1 (ncols X) in
      if length vs = length J \<or> length vs = 1 then
        Inr (X\<lparr>cells :=
             map (\<lambda>i. map (\<lambda>j.
                    if i \<in> set (slice_indices s0 (nrows X)) \<and> j \<in> set J
                    then cells X ! i ! j
                         + (if length vs = length J then vs ! (j - clip_index (start s1) (ncols X))
                            else vs ! 0)
                    else cells X ! i ! j)
                  [0..<ncols X])
               [0..<nrows X]\<rparr>)
      else Inl (ValueError ''operands could not be broadcast together''))"

text \<open>\<^verbatim>\<open>Y[s] = v\<close> on a one-dimensional integer array.\<close>

definition setitem :: "int list \<Rightarrow> slice \<Rightarrow> int \<Rightarrow> int list" where
  "setitem Y s v = map (\<lambda>i. if i \<in> set (slice_indices s (length Y)) then v else Y ! i) [0..<length Y]"

subsection \<open>others.py: what both tasks share\<close>

text \<open>
  A trial as \<^verbatim>\<open>sample_a_trial\<close> returns it,
  \<^verbatim>\<open>[X, dict(ax0=dim0, ax1=dim1)], [Y, dict(ax0=dim0)]\<close>. Both tasks allocate \<open>Y\<close> with
  \<^verbatim>\<open>dtype=int\<close>.
\<close>

record trial =
  X :: ndarray
  X_ax0 :: layout
  X_ax1 :: layout
  Y :: "int list"
  Y_ax0 :: layout

text \<open>
  The base class \<^verbatim>\<open>CognitiveTask\<close> is not part of the sources; it supplies \<^verbatim>\<open>dt\<close>, the
  two optional transforms and the random generator \<^verbatim>\<open>rng\<close>. The generator's state has an
  arbitrary type \<open>'g\<close>, and its two methods used here are parameters of the model:
  \<open>rng_choice g a\<close> is the outcome of \<^verbatim>\<open>rng.choice(a)\<close> in state \<open>g\<close> with the state
  afterwards, \<open>rng_uniform g lo hi\<close> that of \<^verbatim>\<open>rng.uniform(lo, hi)\<close>.
\<close>

record 'g CognitiveTask =
  dt :: real
  input_transform :: "(ndarray \<Rightarrow> error + ndarray) option"
  target_transform :: "(int list \<Rightarrow> error + int list) option"
  rng :: 'g

text \<open>
  \<^verbatim>\<open>if self.input_transform is not None: X = self.input_transform(X)\<close>, then the same
  for \<open>Y\<close>, then the returned value.
\<close>

definition apply_transforms ::
  "('g, 'z) CognitiveTask_scheme \<Rightarrow> ndarray \<Rightarrow> int list \<Rightarrow> layout \<Rightarrow> layout \<Rightarrow> error + trial" where
  "apply_transforms self X0 Y0 dim0 dim1 =
     and_then (case input_transform self of None \<Rightarrow> Inr X0 | Some f \<Rightarrow> f X0) (\<lambda>X1.
     and_then (case target_transform self of None \<Rightarrow> Inr Y0 | Some f \<Rightarrow> f Y0) (\<lambda>Y1.
     Inr \<lparr>X = X1, X_ax0 = dim0, X_ax1 = dim1, Y = Y1, Y_ax0 = dim0\<rparr>))"

text \<open>
  Both task classes have the attributes \<^verbatim>\<open>t_fixation\<close>, \<^verbatim>\<open>num_choice\<close>,
  \<^verbatim>\<open>_features\<close> and \<^verbatim>\<open>_feature_periods\<close>. So that each keeps its name in both
  tasks they form one block of fields, which each task's record extends. A duration has
  the type \<open>'d\<close> the task needs: AntiReach keeps what the constructor received (a number
  or a sampler), Reaching1D divides it by \<^verbatim>\<open>dt\<close> as it is, so there it is a \<open>real\<close>.
\<close>

record ('d, 'g) task_fields = "'g CognitiveTask" +
  t_fixation :: 'd
  num_choice :: int
  features :: "real list"
  feature_periods :: periods

subsection \<open>others.py: AntiReach\<close>

text \<open>
  \<^verbatim>\<open>initialize\<close>, which is not part of the sources, realises a duration and is a
  parameter of \<open>sample_a_trial\<close>. Of the attributes the constructor sets, the two lists of
  feature names are left out: no method of this task reads them.
\<close>

record ('d, 'g) AntiReach = "('d, 'g) task_fields" +
  t_stimulus :: 'd
  t_delay :: 'd
  t_decision :: 'd
  choices :: "int list"
  anti :: bool

text \<open>
  \<^verbatim>\<open>__init__\<close>: \<^verbatim>\<open>2 * np.pi / num_choice\<close> raises for \<open>num_choice = 0\<close>. The generator
  \<open>g\<close> is the one the base class creates from the seed.
\<close>

definition AntiReach_init ::
  "real \<Rightarrow> bool \<Rightarrow> 'd \<Rightarrow> 'd \<Rightarrow> 'd \<Rightarrow> 'd \<Rightarrow> int \<Rightarrow> 'g
   \<Rightarrow> (ndarray \<Rightarrow> error + ndarray) option \<Rightarrow> (int list \<Rightarrow> error + int list) option
   \<Rightarrow> error + ('d, 'g) AntiReach" where
  "AntiReach_init dt0 anti0 t_fix t_stim t_del t_dec n g itf ttf =
     and_then (truediv (2 * pi) (real_of_int n)) (\<lambda>step.
     Inr \<lparr>dt = dt0, input_transform = itf, target_transform = ttf, rng = g,
          t_fixation = t_fix,
          num_choice = n,
          features = arange_real 0 (2 * pi) step,
          feature_periods = Dict [(''fixation'', 1), (''choice'', n)],
          t_stimulus = t_stim, t_delay = t_del, t_decision = t_dec,
          choices = arange n,
          anti = anti0\<rparr>)"

text \<open>Lines 85 to 88: the angle of the stimulus.\<close>

definition stim_theta_of :: "('d, 'g) AntiReach \<Rightarrow> int \<Rightarrow> error + real" where
  "stim_theta_of self ground_truth =
     and_then (getitem (features self) ground_truth) (\<lambda>f.
     if anti self then Inr (np_mod (f + pi) (2 * pi)) else Inr f)"

text \<open>Lines 72 to 82: the step counts, the time layout and the two zero arrays.\<close>

definition AntiReach_allocate ::
  "('d \<Rightarrow> real) \<Rightarrow> ('d, 'g) AntiReach \<Rightarrow> error + (periods \<times> ndarray \<times> int list)" where
  "AntiReach_allocate initialize self =
     and_then (truediv (initialize (t_fixation self)) (dt self)) (\<lambda>q_fixation.
     and_then (truediv (initialize (t_stimulus self)) (dt self)) (\<lambda>q_stimulus.
     and_then (truediv (initialize (t_delay self)) (dt self)) (\<lambda>q_delay.
     and_then (truediv (initialize (t_decision self)) (dt self)) (\<lambda>q_decision.
     let time_periods = Dict [(''fixation'', py_int q_fixation),
                              (''stimulus'', py_int q_stimulus),
                              (''delay'', py_int q_delay),
                              (''decision'', py_int q_decision)];
         n_total = sum_list (values_of time_periods)
     in and_then (zeros2 n_total (num_choice self + 1)) (\<lambda>X0.
        and_then (zeros_int n_total) (\<lambda>Y0.
        Inr (time_periods, X0, Y0)))))))"

text \<open>Lines 85 to 113, for the drawn \<open>ground_truth\<close>.\<close>

definition AntiReach_fill ::
  "('d, 'g) AntiReach \<Rightarrow> periods \<Rightarrow> ndarray \<Rightarrow> int list \<Rightarrow> int \<Rightarrow> error + trial" where
  "AntiReach_fill self time_periods X0 Y0 ground_truth =
     and_then (stim_theta_of self ground_truth) (\<lambda>stim_theta.
     and_then (interval_of ''fixation'' time_periods) (\<lambda>ax0_fixation.
     and_then (interval_of ''stimulus'' time_periods) (\<lambda>ax0_stimulus.
     and_then (interval_of ''delay'' time_periods) (\<lambda>ax0_delay.
     and_then (interval_of ''fixation'' (feature_periods self)) (\<lambda>ax1_fixation.
     and_then (interval_of ''choice'' (feature_periods self)) (\<lambda>ax1_choice.
     let X1 = iadd_scalar X0 ax0_fixation ax1_fixation 1;
         X2 = iadd_scalar X1 ax0_stimulus ax1_fixation 1;
         X3 = iadd_scalar X2 ax0_delay ax1_fixation 1;
         stim = map (\<lambda>f. cos (f - stim_theta)) (features self)
     in and_then (iadd_vector X3 ax0_stimulus ax1_choice stim) (\<lambda>X4.
        and_then (interval_of ''decision'' time_periods) (\<lambda>ax0_decision.
        let Y1 = setitem Y0 ax0_decision (ground_truth + 1);
            dim0 = items time_periods;
            dim1 = [(''fixation'', 1), (''stimulus'', num_choice self)]
        in apply_transforms self X4 Y1 dim0 dim1))))))))"

text \<open>
  \<^verbatim>\<open>sample_a_trial(self, item)\<close>: the result, or the exception, together with the state
  of the generator afterwards. The argument \<open>item\<close> is not read.
\<close>

definition AntiReach_sample_a_trial ::
  "('d \<Rightarrow> real) \<Rightarrow> ('g \<Rightarrow> int list \<Rightarrow> (error + int) \<times> 'g) \<Rightarrow> ('d, 'g) AntiReach \<Rightarrow> 'i
   \<Rightarrow> (error + trial) \<times> 'g" where
  "AntiReach_sample_a_trial initialize rng_choice self item =
     (case AntiReach_allocate initialize self of
        Inl e \<Rightarrow> (Inl e, rng self)
      | Inr (time_periods, X0, Y0) \<Rightarrow>
          (case rng_choice (rng self) (choices self) of
             (Inl e, g') \<Rightarrow> (Inl e, g')
           | (Inr ground_truth, g') \<Rightarrow>
               (AntiReach_fill self time_periods X0 Y0 ground_truth, g')))"

subsection \<open>others.py: Reaching1D\<close>

text \<open>Decimal digits of a natural number, for the f-strings \<^verbatim>\<open>f'target{i}'\<close>.\<close>

fun str_nat :: "nat \<Rightarrow> string" where
  "str_nat n =
     (if n < 10 then [char_of (48 + n)] else str_nat (n div 10) @ [char_of (48 + n mod 10)])"

declare str_nat.simps [simp del]

text \<open>
  The fields \<^verbatim>\<open>t_fixation\<close> and \<^verbatim>\<open>t_reach\<close> are divided by \<^verbatim>\<open>dt\<close> as they are, so
  they are numbers. \<^verbatim>\<open>output_features\<close> is left out: no method of this task reads it.
\<close>

record 'g Reaching1D = "(real, 'g) task_fields" +
  t_reach :: real
  input_features :: "string list"

text \<open>
  \<^verbatim>\<open>__init__\<close>: \<^verbatim>\<open>np.linspace(0, 2 * np.pi, num_choice + 1)[:-1]\<close> drops the last
  point.
\<close>

definition Reaching1D_init ::
  "real \<Rightarrow> real \<Rightarrow> real \<Rightarrow> int \<Rightarrow> 'g
   \<Rightarrow> (ndarray \<Rightarrow> error + ndarray) option \<Rightarrow> (int list \<Rightarrow> error + int list) option
   \<Rightarrow> error + 'g Reaching1D" where
  "Reaching1D_init dt0 t_fix t_rch n g itf ttf =
     and_then (linspace 0 (2 * pi) (n + 1)) (\<lambda>points.
     Inr \<lparr>dt = dt0, input_transform = itf, target_transform = ttf, rng = g,
          t_fixation = t_fix,
          num_choice = n,
          features = butlast points,
          feature_periods = Dict [(''target'', n), (''self'', n)],
          t_reach = t_rch,
          input_features = map (\<lambda>i. ''target'' @ str_nat i) [0..<nat n]
                           @ map (\<lambda>i. ''self'' @ str_nat i) [0..<nat n]\<rparr>)"

text \<open>Lines 161 to 166: the step counts, the time layout and the two zero arrays.\<close>

definition Reaching1D_allocate ::
  "'g Reaching1D \<Rightarrow> error + (periods \<times> ndarray \<times> int list)" where
  "Reaching1D_allocate self =
     and_then (truediv (t_fixation self) (dt self)) (\<lambda>q_fixation.
     and_then (truediv (t_reach self) (dt self)) (\<lambda>q_reach.
     let time_periods = Dict [(''fixation'', py_int q_fixation), (''reach'', py_int q_reach)];
         n_total = sum_list (values_of time_periods)
     in and_then (zeros2 n_total (int (length (input_features self)))) (\<lambda>X0.
        and_then (zeros_int n_total) (\<lambda>Y0.
        Inr (time_periods, X0, Y0)))))"

text \<open>
  Lines 170 to 188, for the drawn \<open>ground_truth\<close>. \<open>Y\<close> is an integer array
  (\<^verbatim>\<open>dtype=int\<close>), so the two floats stored into it are cast to integers.
\<close>

definition Reaching1D_fill ::
  "'g Reaching1D \<Rightarrow> periods \<Rightarrow> ndarray \<Rightarrow> int list \<Rightarrow> real \<Rightarrow> error + trial" where
  "Reaching1D_fill self time_periods X0 Y0 ground_truth =
     and_then (interval_of ''fixation'' time_periods) (\<lambda>ax0_fixation.
     and_then (interval_of ''reach'' time_periods) (\<lambda>ax0_reach.
     and_then (interval_of ''target'' (feature_periods self)) (\<lambda>ax1_target.
     let target = map (\<lambda>f. cos (f - ground_truth)) (features self)
     in and_then (iadd_vector X0 ax0_reach ax1_target target) (\<lambda>X1.
        let Y1 = setitem Y0 ax0_fixation (py_int pi);
            Y2 = setitem Y1 ax0_reach (py_int ground_truth);
            dim0 = items time_periods;
            dim1 = [(''target'', num_choice self), (''self'', num_choice self)]
        in apply_transforms self X1 Y2 dim0 dim1))))"

text \<open>\<^verbatim>\<open>sample_a_trial(self, item)\<close>; \<open>item\<close> is not read.\<close>

definition Reaching1D_sample_a_trial ::
  "('g \<Rightarrow> real \<Rightarrow> real \<Rightarrow> real \<times> 'g) \<Rightarrow> 'g Reaching1D \<Rightarrow> 'i \<Rightarrow> (error + trial) \<times> 'g" where
  "Reaching1D_sample_a_trial rng_uniform self item =
     (case Reaching1D_allocate self of
        Inl e \<Rightarrow> (Inl e, rng self)
      | Inr (time_periods, X0, Y0) \<Rightarrow>
          (case rng_uniform (rng self) 0 (pi * 2) of
             (ground_truth, g') \<Rightarrow>
               (Reaching1D_fill self time_periods X0 Y0 ground_truth, g')))"

subsection \<open>Constructing a task and sampling its first trial\<close>

text \<open>
  \<^verbatim>\<open>AntiReach(...).sample_a_trial(item)\<close> and \<^verbatim>\<open>Reaching1D(...).sample_a_trial(item)\<close>:
  an exception of the constructor leaves the generator as it was.
\<close>

definition AntiReach_first_trial ::
  "('d \<Rightarrow> real) \<Rightarrow> ('g \<Rightarrow> int list \<Rightarrow> (error + int) \<times> 'g)
   \<Rightarrow> real \<Rightarrow> bool \<Rightarrow> 'd \<Rightarrow> 'd \<Rightarrow> 'd \<Rightarrow> 'd \<Rightarrow> int \<Rightarrow> 'g
   \<Rightarrow> (ndarray \<Rightarrow> error + ndarray) option \<Rightarrow> (int list \<Rightarrow> error + int list) option
   \<Rightarrow> 'i \<Rightarrow> (error + trial) \<times> 'g" where
  "AntiReach_first_trial initialize rng_choice dt0 anti0 t_fix t_stim t_del t_dec n g itf ttf item =
     (case AntiReach_init dt0 anti0 t_fix t_stim t_del t_dec n g itf ttf of
        Inl e \<Rightarrow> (Inl e, g)
      | Inr self \<Rightarrow> AntiReach_sample_a_trial initialize rng_choice self item)"

definition Reaching1D_first_trial ::
  "('g \<Rightarrow> real \<Rightarrow> real \<Rightarrow> real \<times> 'g) \<Rightarrow> real \<Rightarrow> real \<Rightarrow> real \<Rightarrow> int \<Rightarrow> 'g
   \<Rightarrow> (ndarray \<Rightarrow> error + ndarray) option \<Rightarrow> (int list \<Rightarrow> error + int list) option
   \<Rightarrow> 'i \<Rightarrow> (error + trial) \<times> 'g" where
  "Reaching1D_first_trial rng_uniform dt0 t_fix t_rch n g itf ttf item =
     (case Reaching1D_init dt0 t_fix t_rch n g itf ttf of
        Inl e \<Rightarrow> (Inl e, g)
      | Inr self \<Rightarrow> Reaching1D_sample_a_trial rng_uniform self item)"

subsection \<open>Generators that replay a recorded sequence of draws\<close>

text \<open>
  For evaluating the tasks on concrete inputs: the state is the list of draws still to
  come, a position for \<^verbatim>\<open>choice\<close> and a point of the unit interval for \<^verbatim>\<open>uniform\<close>.
  Like numpy's generator, \<open>replay_choice\<close> raises on an empty array.
\<close>

fun replay_choice :: "nat list \<Rightarrow> int list \<Rightarrow> (error + int) \<times> nat list" where
  "replay_choice ks [] = (Inl (ValueError ''a cannot be empty''), ks)"
| "replay_choice [] a = (Inr (a ! 0), [])"
| "replay_choice (k # ks) a = (Inr (a ! (k mod length a)), ks)"

fun replay_uniform :: "real list \<Rightarrow> real \<Rightarrow> real \<Rightarrow> real \<times> real list" where
  "replay_uniform [] lo hi = (lo, [])"
| "replay_uniform (u # us) lo hi = (lo + u * (hi - lo), us)"

subsection \<open>The two transforms, applied to an untransformed trial\<close>

text \<open>
  What lines 105 to 108 and 180 to 183 do to the arrays built before them: the input
  transform first, then the target transform, the first exception ending the call.
\<close>

definition with_transforms ::
  "(ndarray \<Rightarrow> error + ndarray) option \<Rightarrow> (int list \<Rightarrow> error + int list) option
   \<Rightarrow> trial \<Rightarrow> error + trial" where
  "with_transforms itf ttf tr0 =
     and_then (case itf of None \<Rightarrow> Inr (X tr0) | Some f \<Rightarrow> f (X tr0)) (\<lambda>X1.
     and_then (case ttf of None \<Rightarrow> Inr (Y tr0) | Some h \<Rightarrow> h (Y tr0)) (\<lambda>Y1.
     Inr (tr0\<lparr>X := X1, Y := Y1\<rparr>)))"

subsection \<open>Closed forms of the arrays\<close>

text \<open>
  The value of the cell in row \<open>i\<close> and column \<open>j\<close> of an AntiReach input, for the step
  counts \<open>nf\<close>, \<open>ns\<close>, \<open>nd\<close> and the response \<open>resp k\<close> of choice channel \<open>k\<close>; and
  that of a Reaching1D input. The lemmas \<open>AntiReach_sample_closed_form\<close> and
  \<open>Reaching1D_sample_closed_form\<close> prove that the code computes them.
\<close>

definition AntiReach_cell :: "int \<Rightarrow> int \<Rightarrow> int \<Rightarrow> (nat \<Rightarrow> real) \<Rightarrow> nat \<Rightarrow> nat \<Rightarrow> real" where
  "AntiReach_cell nf ns nd resp i j =
     (if j = 0 then (if i < nat (nf + ns + nd) then 1 else 0)
      else if nat nf \<le> i \<and> i < nat (nf + ns) then resp (j - 1) else 0)"

definition Reaching1D_cell :: "int \<Rightarrow> int \<Rightarrow> (nat \<Rightarrow> real) \<Rightarrow> nat \<Rightarrow> nat \<Rightarrow> real" where
  "Reaching1D_cell nf n resp i j = (if nat nf \<le> i \<and> j < nat n then resp j else 0)"

section \<open>The arrays a call builds\<close>

subsection \<open>The numpy primitives\<close>


lemma and_then_Inr [simp]: "and_then (Inr x) f = f x"
  by (simp add: and_then_def)

lemma and_then_Inl [simp]: "and_then (Inl e) f = Inl e"
  by (simp add: and_then_def)

lemma iadd_scalar_shape [simp]:
  "nrows (iadd_scalar A s0 s1 v) = nrows A" "ncols (iadd_scalar A s0 s1 v) = ncols A"
  "length (cells (iadd_scalar A s0 s1 v)) = nrows A"
  by (simp_all add: iadd_scalar_def)

lemma iadd_scalar_row_length [simp]:
  "i < nrows A \<Longrightarrow> length (cells (iadd_scalar A s0 s1 v) ! i) = ncols A"
  by (simp add: iadd_scalar_def)

lemma iadd_scalar_nth:
  "i < nrows A \<Longrightarrow> j < ncols A \<Longrightarrow>
   cells (iadd_scalar A s0 s1 v) ! i ! j =
     cells A ! i ! j
     + (if i \<in> set (slice_indices s0 (nrows A)) \<and> j \<in> set (slice_indices s1 (ncols A))
        then v else 0)"
  by (simp add: iadd_scalar_def)

lemma iadd_vector_fits:
  assumes "length vs = length (slice_indices s1 (ncols A))"
  shows "\<exists>B. iadd_vector A s0 s1 vs = Inr B \<and> nrows B = nrows A \<and> ncols B = ncols A
          \<and> length (cells B) = nrows A
          \<and> (\<forall>i<nrows A. length (cells B ! i) = ncols A)
          \<and> (\<forall>i<nrows A. \<forall>j<ncols A. cells B ! i ! j =
               cells A ! i ! j
               + (if i \<in> set (slice_indices s0 (nrows A)) \<and> j \<in> set (slice_indices s1 (ncols A))
                  then vs ! (j - clip_index (start s1) (ncols A)) else 0))"
  using assms by (simp add: iadd_vector_def Let_def)

lemma setitem_length [simp]: "length (setitem ys s v) = length ys"
  by (simp add: setitem_def)

lemma setitem_nth:
  "i < length ys \<Longrightarrow>
   setitem ys s v ! i = (if i \<in> set (slice_indices s (length ys)) then v else ys ! i)"
  by (simp add: setitem_def)

lemma arange_real_features:
  assumes "0 < n"
  shows "arange_real 0 (2 * pi) (2 * pi / real_of_int n)
         = map (\<lambda>i. real i * (2 * pi / real_of_int n)) [0..<nat n]"
proof -
  have "(2 * pi - 0) / (2 * pi / real_of_int n) = real_of_int n"
    using assms by simp
  then show ?thesis
    unfolding arange_real_def by simp
qed


subsection \<open>AntiReach\<close>

lemma AntiReach_init_ok:
  "n \<noteq> 0 \<Longrightarrow>
   AntiReach_init dt0 a tf ts td tc n g itf ttf =
     Inr \<lparr>dt = dt0, input_transform = itf, target_transform = ttf, rng = g,
          t_fixation = tf, num_choice = n,
          features = arange_real 0 (2 * pi) (2 * pi / real_of_int n),
          feature_periods = Dict [(''fixation'', 1), (''choice'', n)],
          t_stimulus = ts, t_delay = td, t_decision = tc,
          choices = arange n, anti = a\<rparr>"
  by (simp add: AntiReach_init_def truediv_def)

lemma AntiReach_init_zero:
  "AntiReach_init dt0 a tf ts td tc 0 g itf ttf = Inl ZeroDivisionError"
  by (simp add: AntiReach_init_def truediv_def)

lemma step_count_nonneg: "0 < d \<Longrightarrow> 0 \<le> t \<Longrightarrow> 0 \<le> py_int (t / d)"
  by (simp add: py_int_def)

lemma AntiReach_allocate_ok:
  assumes "dt self \<noteq> 0"
    and "0 \<le> py_int (initialize (t_fixation self) / dt self)
           + py_int (initialize (t_stimulus self) / dt self)
           + py_int (initialize (t_delay self) / dt self)
           + py_int (initialize (t_decision self) / dt self)"
    and "0 \<le> num_choice self + 1"
  shows "AntiReach_allocate initialize self =
     Inr (Dict [(''fixation'', py_int (initialize (t_fixation self) / dt self)),
                (''stimulus'', py_int (initialize (t_stimulus self) / dt self)),
                (''delay'', py_int (initialize (t_delay self) / dt self)),
                (''decision'', py_int (initialize (t_decision self) / dt self))],
          \<lparr>nrows = nat (py_int (initialize (t_fixation self) / dt self)
                        + py_int (initialize (t_stimulus self) / dt self)
                        + py_int (initialize (t_delay self) / dt self)
                        + py_int (initialize (t_decision self) / dt self)),
           ncols = nat (num_choice self + 1),
           cells = replicate (nat (py_int (initialize (t_fixation self) / dt self)
                        + py_int (initialize (t_stimulus self) / dt self)
                        + py_int (initialize (t_delay self) / dt self)
                        + py_int (initialize (t_decision self) / dt self)))
                     (replicate (nat (num_choice self + 1)) 0)\<rparr>,
          replicate (nat (py_int (initialize (t_fixation self) / dt self)
                        + py_int (initialize (t_stimulus self) / dt self)
                        + py_int (initialize (t_delay self) / dt self)
                        + py_int (initialize (t_decision self) / dt self))) 0)"
  using assms
  by (simp add: AntiReach_allocate_def truediv_def zeros2_def zeros_int_def values_of_def
      Let_def add.assoc)


lemma clip_index_in_range: "0 \<le> i \<Longrightarrow> i \<le> int n \<Longrightarrow> clip_index i n = nat i"
  by (simp add: clip_index_def)

lemma getitem_in_range:
  "0 \<le> i \<Longrightarrow> i < int (length xs) \<Longrightarrow> getitem xs i = Inr (xs ! nat i)"
  by (simp add: getitem_def Let_def)


lemma AntiReach_fill_closed_form:
  assumes nonneg: "0 \<le> nf" "0 \<le> ns" "0 \<le> nd" "0 \<le> nc"
    and n: "0 < num_choice self"
    and feats: "length (features self) = nat (num_choice self)"
    and fp: "feature_periods self = Dict [(''fixation'', 1), (''choice'', num_choice self)]"
    and gt: "0 \<le> gt" "gt < num_choice self"
    and theta: "\<theta> = (if anti self then np_mod (features self ! nat gt + pi) (2 * pi)
                        else features self ! nat gt)"
  shows "AntiReach_fill self
           (Dict [(''fixation'', nf), (''stimulus'', ns), (''delay'', nd), (''decision'', nc)])
           \<lparr>nrows = nat (nf + ns + nd + nc), ncols = nat (num_choice self + 1),
            cells = replicate (nat (nf + ns + nd + nc)) (replicate (nat (num_choice self + 1)) 0)\<rparr>
           (replicate (nat (nf + ns + nd + nc)) 0) gt =
         apply_transforms self
           \<lparr>nrows = nat (nf + ns + nd + nc), ncols = nat (num_choice self + 1),
            cells = map (\<lambda>i. map (AntiReach_cell nf ns nd
                                     (\<lambda>k. cos (features self ! k - \<theta>)) i)
                               [0..<nat (num_choice self + 1)])
                        [0..<nat (nf + ns + nd + nc)]\<rparr>
           (replicate (nat (nf + ns + nd)) 0 @ replicate (nat nc) (gt + 1))
           [(''fixation'', nf), (''stimulus'', ns), (''delay'', nd), (''decision'', nc)]
           [(''fixation'', 1), (''stimulus'', num_choice self)]"
proof -
  define T where "T = nat (nf + ns + nd + nc)"
  define M where "M = nat (num_choice self + 1)"
  define A0 where "A0 = \<lparr>nrows = T, ncols = M, cells = replicate T (replicate M (0::real))\<rparr>"
  define fixs where "fixs = \<lparr>start = 0, stop = nf\<rparr>"
  define stims where "stims = \<lparr>start = nf, stop = nf + ns\<rparr>"
  define dels where "dels = \<lparr>start = nf + ns, stop = nf + ns + nd\<rparr>"
  define decs where "decs = \<lparr>start = nf + ns + nd, stop = nf + ns + nd + nc\<rparr>"
  define c0 where "c0 = \<lparr>start = 0, stop = (1::int)\<rparr>"
  define cch where "cch = \<lparr>start = 1, stop = 1 + num_choice self\<rparr>"
  define stim where "stim = map (\<lambda>f. cos (f - \<theta>)) (features self)"
  define A3 where "A3 = iadd_scalar (iadd_scalar (iadd_scalar A0 fixs c0 1) stims c0 1) dels c0 1"
  have theta_ok: "stim_theta_of self gt = Inr \<theta>"
    using gt feats theta by (simp add: stim_theta_of_def getitem_in_range)
  have iv: "interval_of ''fixation'' (Dict [(''fixation'', nf), (''stimulus'', ns), (''delay'', nd), (''decision'', nc)]) = Inr fixs"
    "interval_of ''stimulus'' (Dict [(''fixation'', nf), (''stimulus'', ns), (''delay'', nd), (''decision'', nc)]) = Inr stims"
    "interval_of ''delay'' (Dict [(''fixation'', nf), (''stimulus'', ns), (''delay'', nd), (''decision'', nc)]) = Inr dels"
    "interval_of ''decision'' (Dict [(''fixation'', nf), (''stimulus'', ns), (''delay'', nd), (''decision'', nc)]) = Inr decs"
    "interval_of ''fixation'' (feature_periods self) = Inr c0"
    "interval_of ''choice'' (feature_periods self) = Inr cch"
    by (simp_all add: interval_of_def fp fixs_def stims_def dels_def decs_def c0_def cch_def)
  have shape3: "nrows A3 = T" "ncols A3 = M"
    by (simp_all add: A3_def A0_def)
  have cols: "slice_indices cch M = [1..<M]" "slice_indices c0 M = [0..<1]"
    using n by (simp_all add: slice_indices_def cch_def c0_def M_def clip_index_def add.commute)
  have rows: "slice_indices fixs T = [0..<nat nf]"
    "slice_indices stims T = [nat nf..<nat (nf + ns)]"
    "slice_indices dels T = [nat (nf + ns)..<nat (nf + ns + nd)]"
    "slice_indices decs T = [nat (nf + ns + nd)..<T]"
    using nonneg
    by (simp_all add: slice_indices_def fixs_def stims_def dels_def decs_def T_def
        clip_index_in_range)
  have len: "length stim = length (slice_indices cch (ncols A3))"
    unfolding shape3 cols using n feats by (simp add: stim_def M_def nat_add_distrib)
  from iadd_vector_fits [OF len, of stims]
  obtain A4 where A4: "iadd_vector A3 stims cch stim = Inr A4"
    and shape4: "nrows A4 = T" "ncols A4 = M" "length (cells A4) = T"
    and rowlen4: "\<And>i. i < T \<Longrightarrow> length (cells A4 ! i) = M"
    and cell4: "\<And>i j. i < T \<Longrightarrow> j < M \<Longrightarrow> cells A4 ! i ! j =
        cells A3 ! i ! j
        + (if i \<in> set (slice_indices stims T) \<and> j \<in> set (slice_indices cch M)
           then stim ! (j - clip_index (start cch) M) else 0)"
    unfolding shape3 by blast
  have cell3: "cells A3 ! i ! j =
      (if j = 0 \<and> i < nat (nf + ns + nd) then 1 else 0)" if "i < T" "j < M" for i j
    using that nonneg unfolding A3_def
    by (simp add: iadd_scalar_nth A0_def rows cols) arith
  have cell: "cells A4 ! i ! j = AntiReach_cell nf ns nd (\<lambda>k. cos (features self ! k - \<theta>)) i j"
    if "i < T" "j < M" for i j
  proof -
    have resp: "stim ! (j - 1) = cos (features self ! (j - 1) - \<theta>)" if "0 < j"
      using that \<open>j < M\<close> feats n by (simp add: stim_def M_def nat_add_distrib)
    have first: "clip_index (start cch) M = 1"
      using n by (simp add: cch_def clip_index_def M_def)
    show ?thesis
      using that resp by (auto simp add: cell4 cell3 rows cols first AntiReach_cell_def)
  qed
  have X4: "A4 = \<lparr>nrows = T, ncols = M,
      cells = map (\<lambda>i. map (AntiReach_cell nf ns nd (\<lambda>k. cos (features self ! k - \<theta>)) i) [0..<M]) [0..<T]\<rparr>"
  proof -
    have "cells A4 = map (\<lambda>i. map (AntiReach_cell nf ns nd (\<lambda>k. cos (features self ! k - \<theta>)) i) [0..<M]) [0..<T]"
      by (rule nth_equalityI) (auto simp: shape4 rowlen4 cell intro!: nth_equalityI)
    then show ?thesis using shape4 by simp
  qed
  have split: "nat (nf + ns + nd) + nat nc = T"
    using nonneg by (simp add: T_def nat_add_distrib)
  have Y1: "setitem (replicate T 0) decs (gt + 1) =
      replicate (nat (nf + ns + nd)) 0 @ replicate (nat nc) (gt + 1)"
  proof (rule nth_equalityI)
    show "length (setitem (replicate T 0) decs (gt + 1)) =
        length (replicate (nat (nf + ns + nd)) 0 @ replicate (nat nc) (gt + 1))"
      using split by simp
  next
    fix i
    assume "i < length (setitem (replicate T 0) decs (gt + 1))"
    then have i: "i < T" by simp
    from i split have "i - nat (nf + ns + nd) < nat nc" if "\<not> i < nat (nf + ns + nd)"
      using that by arith
    with i show "setitem (replicate T 0) decs (gt + 1) ! i =
        (replicate (nat (nf + ns + nd)) 0 @ replicate (nat nc) (gt + 1)) ! i"
      by (auto simp add: setitem_nth rows nth_append)
  qed
  show ?thesis
    unfolding T_def [symmetric] M_def [symmetric] A0_def [symmetric]
    by (simp add: AntiReach_fill_def theta_ok iv Let_def A3_def [symmetric] stim_def [symmetric]
        A4 Y1 X4)
qed



lemma AntiReach_init_features:
  assumes "AntiReach_init dt0 a tf ts td tc n g itf ttf = Inr self" and "0 < n"
  shows "length (features self) = nat n"
    and "\<And>k. k < nat n \<Longrightarrow> features self ! k = real k * (2 * pi / real_of_int n)"
  using assms by (auto simp add: AntiReach_init_ok arange_real_features)

lemma in_arange: "k \<in> set (arange n) \<longleftrightarrow> 0 \<le> k \<and> k < n"
  by (auto simp add: arange_def image_iff intro: bexI [of _ "nat k"])

lemma AntiReach_sample_closed_form:
  fixes initialize :: "'d \<Rightarrow> real" and dt0 :: real and tf ts td tc :: 'd
  defines "nf \<equiv> py_int (initialize tf / dt0)"
    and "ns \<equiv> py_int (initialize ts / dt0)"
    and "nd \<equiv> py_int (initialize td / dt0)"
    and "nc \<equiv> py_int (initialize tc / dt0)"
  assumes init: "AntiReach_init dt0 a tf ts td tc n g itf ttf = Inr self"
    and dt: "0 < dt0"
    and dur: "0 \<le> initialize tf" "0 \<le> initialize ts" "0 \<le> initialize td" "0 \<le> initialize tc"
    and draw: "rng_choice g (arange n) = (Inr gt, g')"
    and mem: "gt \<in> set (arange n)"
    and theta: "\<theta> = (if a then np_mod (features self ! nat gt + pi) (2 * pi)
                        else features self ! nat gt)"
  shows "AntiReach_sample_a_trial initialize rng_choice self item =
      (apply_transforms self
         \<lparr>nrows = nat (nf + ns + nd + nc), ncols = nat (n + 1),
          cells = map (\<lambda>i. map (AntiReach_cell nf ns nd (\<lambda>k. cos (features self ! k - \<theta>)) i)
                  [0..<nat (n + 1)])
                [0..<nat (nf + ns + nd + nc)]\<rparr>
         (replicate (nat (nf + ns + nd)) 0 @ replicate (nat nc) (gt + 1))
         [(''fixation'', nf), (''stimulus'', ns), (''delay'', nd), (''decision'', nc)]
         [(''fixation'', 1), (''stimulus'', n)], g')"
proof -
  from mem have gt: "0 \<le> gt" "gt < n" and n: "0 < n"
    by (auto simp add: in_arange)
  from n have self: "self = \<lparr>dt = dt0, input_transform = itf, target_transform = ttf, rng = g,
          t_fixation = tf, num_choice = n,
          features = arange_real 0 (2 * pi) (2 * pi / real_of_int n),
          feature_periods = Dict [(''fixation'', 1), (''choice'', n)],
          t_stimulus = ts, t_delay = td, t_decision = tc,
          choices = arange n, anti = a\<rparr>"
    using init by (simp add: AntiReach_init_ok)
  have fields: "dt self = dt0" "rng self = g" "t_fixation self = tf" "t_stimulus self = ts"
    "t_delay self = td" "t_decision self = tc" "num_choice self = n" "choices self = arange n"
    "anti self = a"
    by (simp_all add: self)
  have fp: "feature_periods self = Dict [(''fixation'', 1), (''choice'', num_choice self)]"
    by (simp add: self)
  have nonneg: "0 \<le> nf" "0 \<le> ns" "0 \<le> nd" "0 \<le> nc"
    using dt dur by (simp_all add: nf_def ns_def nd_def nc_def step_count_nonneg)
  have alloc: "AntiReach_allocate initialize self =
      Inr (Dict [(''fixation'', nf), (''stimulus'', ns), (''delay'', nd), (''decision'', nc)],
           \<lparr>nrows = nat (nf + ns + nd + nc), ncols = nat (num_choice self + 1),
            cells = replicate (nat (nf + ns + nd + nc)) (replicate (nat (num_choice self + 1)) 0)\<rparr>,
           replicate (nat (nf + ns + nd + nc)) 0)"
    using AntiReach_allocate_ok [of self initialize] dt nonneg n
    by (simp add: fields nf_def ns_def nd_def nc_def)
  have feats: "length (features self) = nat (num_choice self)"
    using AntiReach_init_features(1) [OF init n] by (simp add: fields)
  have th: "\<theta> = (if anti self then np_mod (features self ! nat gt + pi) (2 * pi)
                   else features self ! nat gt)"
    using theta by (simp add: fields)
  have n': "0 < num_choice self" and gt': "gt < num_choice self"
    using n gt by (simp_all add: fields)
  note fill = AntiReach_fill_closed_form [OF nonneg n' feats fp gt(1) gt' th]
  show ?thesis
    unfolding AntiReach_sample_a_trial_def alloc
    by (simp add: fields(2,8) draw fill) (simp add: fields)
qed

subsection \<open>Reaching1D\<close>


lemma linspace_features:
  assumes "0 \<le> n"
  shows "linspace 0 (2 * pi) (n + 1) =
         Inr (map (\<lambda>i. real i * (2 * pi / real_of_int n)) [0..<nat n]
              @ [real (nat n) * (2 * pi / real_of_int n)])"
proof (cases "n = 0")
  case True
  then show ?thesis by (simp add: linspace_def)
next
  case False
  with assms have "nat (n + 1) = Suc (nat n)" by simp
  with assms False show ?thesis by (simp add: linspace_def)
qed

lemma Reaching1D_init_ok:
  "0 \<le> n \<Longrightarrow>
   Reaching1D_init dt0 tf tr n g itf ttf =
     Inr \<lparr>dt = dt0, input_transform = itf, target_transform = ttf, rng = g,
          t_fixation = tf, num_choice = n,
          features = map (\<lambda>i. real i * (2 * pi / real_of_int n)) [0..<nat n],
          feature_periods = Dict [(''target'', n), (''self'', n)],
          t_reach = tr,
          input_features = map (\<lambda>i. ''target'' @ str_nat i) [0..<nat n]
                           @ map (\<lambda>i. ''self'' @ str_nat i) [0..<nat n]\<rparr>"
  by (simp add: Reaching1D_init_def linspace_features)

lemma Reaching1D_allocate_ok:
  assumes "dt self \<noteq> 0"
    and "0 \<le> py_int (t_fixation self / dt self) + py_int (t_reach self / dt self)"
  shows "Reaching1D_allocate self =
     Inr (Dict [(''fixation'', py_int (t_fixation self / dt self)),
                (''reach'', py_int (t_reach self / dt self))],
          \<lparr>nrows = nat (py_int (t_fixation self / dt self) + py_int (t_reach self / dt self)),
           ncols = length (input_features self),
           cells = replicate (nat (py_int (t_fixation self / dt self)
                                   + py_int (t_reach self / dt self)))
                     (replicate (length (input_features self)) 0)\<rparr>,
          replicate (nat (py_int (t_fixation self / dt self) + py_int (t_reach self / dt self))) 0)"
  using assms
  by (simp add: Reaching1D_allocate_def truediv_def zeros2_def zeros_int_def values_of_def Let_def)

lemma Reaching1D_fill_closed_form:
  assumes nonneg: "0 \<le> nf" "0 \<le> nr"
    and n: "0 \<le> num_choice self"
    and feats: "length (features self) = nat (num_choice self)"
    and fp: "feature_periods self = Dict [(''target'', num_choice self), (''self'', num_choice self)]"
    and width: "M = 2 * nat (num_choice self)"
  shows "Reaching1D_fill self (Dict [(''fixation'', nf), (''reach'', nr)])
           \<lparr>nrows = nat (nf + nr), ncols = M,
            cells = replicate (nat (nf + nr)) (replicate M 0)\<rparr>
           (replicate (nat (nf + nr)) 0) gt =
         apply_transforms self
           \<lparr>nrows = nat (nf + nr), ncols = M,
            cells = map (\<lambda>i. map (Reaching1D_cell nf (num_choice self)
                                     (\<lambda>k. cos (features self ! k - gt)) i)
                               [0..<M])
                        [0..<nat (nf + nr)]\<rparr>
           (replicate (nat nf) (py_int pi) @ replicate (nat nr) (py_int gt))
           [(''fixation'', nf), (''reach'', nr)]
           [(''target'', num_choice self), (''self'', num_choice self)]"
proof -
  define T where "T = nat (nf + nr)"
  define A0 where "A0 = \<lparr>nrows = T, ncols = M, cells = replicate T (replicate M (0::real))\<rparr>"
  define fixs where "fixs = \<lparr>start = 0, stop = nf\<rparr>"
  define rchs where "rchs = \<lparr>start = nf, stop = nf + nr\<rparr>"
  define tgt where "tgt = \<lparr>start = 0, stop = num_choice self\<rparr>"
  define target where "target = map (\<lambda>f. cos (f - gt)) (features self)"
  have iv: "interval_of ''fixation'' (Dict [(''fixation'', nf), (''reach'', nr)]) = Inr fixs"
    "interval_of ''reach'' (Dict [(''fixation'', nf), (''reach'', nr)]) = Inr rchs"
    "interval_of ''target'' (feature_periods self) = Inr tgt"
    by (simp_all add: interval_of_def fp fixs_def rchs_def tgt_def)
  have shape0: "nrows A0 = T" "ncols A0 = M"
    by (simp_all add: A0_def)
  have cols: "slice_indices tgt M = [0..<nat (num_choice self)]"
    using n by (simp add: slice_indices_def tgt_def width clip_index_def)
  have first: "clip_index (start tgt) M = 0"
    by (simp add: tgt_def clip_index_def)
  have split: "nat nf + nat nr = T"
    using nonneg by (simp add: T_def nat_add_distrib)
  have rows: "slice_indices fixs T = [0..<nat nf]" "slice_indices rchs T = [nat nf..<T]"
    using nonneg by (simp_all add: slice_indices_def fixs_def rchs_def T_def clip_index_in_range)
  have len: "length target = length (slice_indices tgt (ncols A0))"
    unfolding shape0 cols using feats by (simp add: target_def)
  from iadd_vector_fits [OF len, of rchs]
  obtain A1 where A1: "iadd_vector A0 rchs tgt target = Inr A1"
    and shape1: "nrows A1 = T" "ncols A1 = M" "length (cells A1) = T"
    and rowlen1: "\<And>i. i < T \<Longrightarrow> length (cells A1 ! i) = M"
    and cell1: "\<And>i j. i < T \<Longrightarrow> j < M \<Longrightarrow> cells A1 ! i ! j =
        cells A0 ! i ! j
        + (if i \<in> set (slice_indices rchs T) \<and> j \<in> set (slice_indices tgt M)
           then target ! (j - clip_index (start tgt) M) else 0)"
    unfolding shape0 by blast
  have cell: "cells A1 ! i ! j = Reaching1D_cell nf (num_choice self) (\<lambda>k. cos (features self ! k - gt)) i j"
    if "i < T" "j < M" for i j
  proof -
    have resp: "target ! j = cos (features self ! j - gt)" if "j < nat (num_choice self)"
      using that feats by (simp add: target_def)
    have zero: "cells A0 ! i ! j = 0"
      using that by (simp add: A0_def)
    show ?thesis
      using that resp by (auto simp add: cell1 zero rows cols first Reaching1D_cell_def)
  qed
  have X1: "A1 = \<lparr>nrows = T, ncols = M,
      cells = map (\<lambda>i. map (Reaching1D_cell nf (num_choice self) (\<lambda>k. cos (features self ! k - gt)) i) [0..<M]) [0..<T]\<rparr>"
  proof -
    have "cells A1 = map (\<lambda>i. map (Reaching1D_cell nf (num_choice self) (\<lambda>k. cos (features self ! k - gt)) i) [0..<M]) [0..<T]"
      by (rule nth_equalityI) (auto simp: shape1 rowlen1 cell intro!: nth_equalityI)
    then show ?thesis using shape1 by simp
  qed
  have Y2: "setitem (setitem (replicate T 0) fixs (py_int pi)) rchs (py_int gt) =
      replicate (nat nf) (py_int pi) @ replicate (nat nr) (py_int gt)"
  proof (rule nth_equalityI)
    show "length (setitem (setitem (replicate T 0) fixs (py_int pi)) rchs (py_int gt)) =
        length (replicate (nat nf) (py_int pi) @ replicate (nat nr) (py_int gt))"
      using split by simp
  next
    fix i
    assume "i < length (setitem (setitem (replicate T 0) fixs (py_int pi)) rchs (py_int gt))"
    then have i: "i < T" by simp
    from i split have "i - nat nf < nat nr" if "\<not> i < nat nf"
      using that by arith
    with i show "setitem (setitem (replicate T 0) fixs (py_int pi)) rchs (py_int gt) ! i =
        (replicate (nat nf) (py_int pi) @ replicate (nat nr) (py_int gt)) ! i"
      by (auto simp add: setitem_nth rows nth_append)
  qed
  show ?thesis
    unfolding T_def [symmetric] A0_def [symmetric]
    by (simp add: Reaching1D_fill_def iv Let_def target_def [symmetric] A1 Y2 X1)
qed

lemma Reaching1D_sample_closed_form:
  fixes dt0 tf tr :: real
  defines "nf \<equiv> py_int (tf / dt0)" and "nr \<equiv> py_int (tr / dt0)"
  assumes init: "Reaching1D_init dt0 tf tr n g itf ttf = Inr self"
    and n: "0 \<le> n"
    and dt: "0 < dt0"
    and dur: "0 \<le> tf" "0 \<le> tr"
    and draw: "rng_uniform g 0 (pi * 2) = (gt, g')"
  shows "Reaching1D_sample_a_trial rng_uniform self item =
      (apply_transforms self
         \<lparr>nrows = nat (nf + nr), ncols = 2 * nat n,
          cells = map (\<lambda>i. map (Reaching1D_cell nf n (\<lambda>k. cos (features self ! k - gt)) i)
                             [0..<2 * nat n])
                      [0..<nat (nf + nr)]\<rparr>
         (replicate (nat nf) (py_int pi) @ replicate (nat nr) (py_int gt))
         [(''fixation'', nf), (''reach'', nr)]
         [(''target'', n), (''self'', n)], g')"
proof -
  from n have self: "self = \<lparr>dt = dt0, input_transform = itf, target_transform = ttf, rng = g,
          t_fixation = tf, num_choice = n,
          features = map (\<lambda>i. real i * (2 * pi / real_of_int n)) [0..<nat n],
          feature_periods = Dict [(''target'', n), (''self'', n)],
          t_reach = tr,
          input_features = map (\<lambda>i. ''target'' @ str_nat i) [0..<nat n]
                           @ map (\<lambda>i. ''self'' @ str_nat i) [0..<nat n]\<rparr>"
    using init by (simp add: Reaching1D_init_ok)
  have fields: "dt self = dt0" "rng self = g" "t_fixation self = tf" "t_reach self = tr"
    "num_choice self = n" "length (input_features self) = 2 * nat n"
    by (simp_all add: self)
  have fp: "feature_periods self = Dict [(''target'', num_choice self), (''self'', num_choice self)]"
    by (simp add: self)
  have feats: "length (features self) = nat (num_choice self)"
    by (simp add: self)
  have nonneg: "0 \<le> nf" "0 \<le> nr"
    using dt dur by (simp_all add: nf_def nr_def step_count_nonneg)
  have alloc: "Reaching1D_allocate self =
      Inr (Dict [(''fixation'', nf), (''reach'', nr)],
           \<lparr>nrows = nat (nf + nr), ncols = 2 * nat n,
            cells = replicate (nat (nf + nr)) (replicate (2 * nat n) 0)\<rparr>,
           replicate (nat (nf + nr)) 0)"
    using Reaching1D_allocate_ok [of self] dt nonneg
    by (simp add: fields nf_def nr_def)
  have n': "0 \<le> num_choice self" and width: "2 * nat n = 2 * nat (num_choice self)"
    using n by (simp_all add: fields)
  note fill = Reaching1D_fill_closed_form [OF nonneg n' feats fp width]
  show ?thesis
    unfolding Reaching1D_sample_a_trial_def alloc
    by (simp add: fields(2) draw fill) (simp add: fields)
qed

lemma arange_4: "arange 4 = [0, 1, 2, 3]"
  by (simp add: arange_def upt_conv_Cons)

lemma AntiReach_first_trial_closed_form:
  fixes initialize :: "'d \<Rightarrow> real" and d :: real and tf ts td tc :: 'd
  defines "nf \<equiv> py_int (initialize tf / d)"
    and "ns \<equiv> py_int (initialize ts / d)"
    and "nd \<equiv> py_int (initialize td / d)"
    and "nc \<equiv> py_int (initialize tc / d)"
  assumes dt: "0 < d"
    and dur: "0 \<le> initialize tf" "0 \<le> initialize ts" "0 \<le> initialize td" "0 \<le> initialize tc"
    and draw: "rng_choice g (arange n) = (Inr gt, g')"
    and mem: "gt \<in> set (arange n)"
    and theta: "\<theta> = (if a then np_mod (real_of_int gt * (2 * pi / real_of_int n) + pi) (2 * pi)
                        else real_of_int gt * (2 * pi / real_of_int n))"
  shows "AntiReach_first_trial initialize rng_choice d a tf ts td tc n g itf ttf item =
      (and_then (case itf of None \<Rightarrow> Inr
           \<lparr>nrows = nat (nf + ns + nd + nc), ncols = nat (n + 1),
            cells = map (\<lambda>i. map (AntiReach_cell nf ns nd
                                     (\<lambda>k. cos (real k * (2 * pi / real_of_int n) - \<theta>)) i)
                    [0..<nat (n + 1)])
                  [0..<nat (nf + ns + nd + nc)]\<rparr>
          | Some f \<Rightarrow> f
           \<lparr>nrows = nat (nf + ns + nd + nc), ncols = nat (n + 1),
            cells = map (\<lambda>i. map (AntiReach_cell nf ns nd
                                     (\<lambda>k. cos (real k * (2 * pi / real_of_int n) - \<theta>)) i)
                    [0..<nat (n + 1)])
                  [0..<nat (nf + ns + nd + nc)]\<rparr>) (\<lambda>X1.
       and_then (case ttf of None \<Rightarrow> Inr (replicate (nat (nf + ns + nd)) 0 @ replicate (nat nc) (gt + 1))
          | Some h \<Rightarrow> h (replicate (nat (nf + ns + nd)) 0 @ replicate (nat nc) (gt + 1))) (\<lambda>Y1.
       Inr \<lparr>X = X1,
            X_ax0 = [(''fixation'', nf), (''stimulus'', ns), (''delay'', nd), (''decision'', nc)],
            X_ax1 = [(''fixation'', 1), (''stimulus'', n)],
            Y = Y1,
            Y_ax0 = [(''fixation'', nf), (''stimulus'', ns), (''delay'', nd), (''decision'', nc)]\<rparr>)),
       g')"
proof -
  from mem have gt: "0 \<le> gt" "gt < n" and n: "0 < n"
    by (auto simp add: in_arange)
  define self where "self = \<lparr>dt = d, input_transform = itf, target_transform = ttf, rng = g,
          t_fixation = tf, num_choice = n,
          features = arange_real 0 (2 * pi) (2 * pi / real_of_int n),
          feature_periods = Dict [(''fixation'', 1), (''choice'', n)],
          t_stimulus = ts, t_delay = td, t_decision = tc,
          choices = arange n, anti = a\<rparr>"
  have init: "AntiReach_init d a tf ts td tc n g itf ttf = Inr self"
    using n by (simp add: AntiReach_init_ok self_def)
  note feat = AntiReach_init_features [OF init n]
  have gt_angle: "features self ! nat gt = real_of_int gt * (2 * pi / real_of_int n)"
    using feat(2) [of "nat gt"] gt by simp
  have th: "\<theta> = (if a then np_mod (features self ! nat gt + pi) (2 * pi)
                   else features self ! nat gt)"
    using theta by (simp add: gt_angle)
  have cells: "map (\<lambda>i. map (AntiReach_cell nf ns nd (\<lambda>k. cos (features self ! k - \<theta>)) i)
                  [0..<nat (n + 1)]) [0..<nat (nf + ns + nd + nc)]
      = map (\<lambda>i. map (AntiReach_cell nf ns nd
                        (\<lambda>k. cos (real k * (2 * pi / real_of_int n) - \<theta>)) i)
                  [0..<nat (n + 1)]) [0..<nat (nf + ns + nd + nc)]"
  proof -
    have "AntiReach_cell nf ns nd (\<lambda>k. cos (features self ! k - \<theta>)) i j
        = AntiReach_cell nf ns nd (\<lambda>k. cos (real k * (2 * pi / real_of_int n) - \<theta>)) i j"
      if "j < nat (n + 1)" for i j
    proof -
      have "features self ! (j - 1) = real (j - 1) * (2 * pi / real_of_int n)" if "0 < j"
        using feat(2) [of "j - 1"] that \<open>j < nat (n + 1)\<close> n by (simp add: nat_add_distrib)
      then show ?thesis by (simp add: AntiReach_cell_def)
    qed
    then show ?thesis by simp
  qed
  have transforms: "input_transform self = itf" "target_transform self = ttf"
    by (simp_all add: self_def)
  have sample: "AntiReach_sample_a_trial initialize rng_choice self item =
      (apply_transforms self
         \<lparr>nrows = nat (nf + ns + nd + nc), ncols = nat (n + 1),
          cells = map (\<lambda>i. map (AntiReach_cell nf ns nd (\<lambda>k. cos (features self ! k - \<theta>)) i)
                  [0..<nat (n + 1)])
                [0..<nat (nf + ns + nd + nc)]\<rparr>
         (replicate (nat (nf + ns + nd)) 0 @ replicate (nat nc) (gt + 1))
         [(''fixation'', nf), (''stimulus'', ns), (''delay'', nd), (''decision'', nc)]
         [(''fixation'', 1), (''stimulus'', n)], g')"
    unfolding nf_def ns_def nd_def nc_def
    by (rule AntiReach_sample_closed_form [where initialize = initialize and tf = tf and ts = ts
        and td = td and tc = tc and item = item and rng_choice = rng_choice,
        OF init dt dur draw mem th])
  show ?thesis
    unfolding AntiReach_first_trial_def init
    by (simp only: sum.case sample cells apply_transforms_def transforms)
qed



subsection \<open>Values at the example configurations\<close>

lemma example_steps: "py_int (500 / 100) = 5" "py_int (0 / 100) = 0"
  by (simp_all add: py_int_def)

lemma example_durations: "(0::real) < 100" "(0::real) \<le> 500" "(0::real) \<le> 0"
  by simp_all

lemma upt_5: "[0..<5] = [0, 1, 2, 3, 4]"
  by (simp add: upt_conv_Cons)

lemma upt_15: "[0..<15] = [0, 1, 2, 3, 4, 5, 6, 7, 8, 9, 10, 11, 12, 13, 14]"
  by (simp add: upt_conv_Cons)

lemma np_mod_pi: "np_mod pi (2 * pi) = pi"
  by (simp add: np_mod_def)

lemma quarter_turns:
  "cos (2 * pi / 4 - pi) = 0" "cos (2 * (2 * pi / 4) - pi) = 1" "cos (3 * (2 * pi / 4) - pi) = 0"
proof -
  have "2 * pi / 4 - pi = - (pi / 2)" by simp
  then show "cos (2 * pi / 4 - pi) = 0" by (simp only: cos_minus cos_pi_half)
  have "2 * (2 * pi / 4) - pi = 0" by simp
  then show "cos (2 * (2 * pi / 4) - pi) = 1" by (simp only: cos_zero)
  have "3 * (2 * pi / 4) - pi = pi / 2" by simp
  then show "cos (3 * (2 * pi / 4) - pi) = 0" by (simp only: cos_pi_half)
qed

lemma cos_three_quarter_turn: "cos (3 * pi / 2) = 0"
  using cos_3over2_pi by simp


lemma upt_4: "[0..<4] = [0, 1, 2, 3]"
  by (simp add: upt_conv_Cons)


lemma third_turns: "cos (2 * pi / 3) = - 1 / 2" "cos (4 * pi / 3) = - 1 / 2"
proof -
  show "cos (2 * pi / 3) = - 1 / 2"
    using cos_120 by simp
  have "4 * pi / 3 = pi / 3 + pi" by simp
  then have "cos (4 * pi / 3) = - cos (pi / 3)"
    by (simp only: cos_periodic_pi)
  then show "cos (4 * pi / 3) = - 1 / 2"
    by (simp add: cos_60)
qed

subsection \<open>Feature angles\<close>




lemma Reaching1D_first_trial_closed_form:
  fixes d tf tr :: real
  defines "nf \<equiv> py_int (tf / d)" and "nr \<equiv> py_int (tr / d)"
  assumes n: "0 \<le> n"
    and dt: "0 < d"
    and dur: "0 \<le> tf" "0 \<le> tr"
    and draw: "rng_uniform g 0 (pi * 2) = (gt, g')"
  shows "Reaching1D_first_trial rng_uniform d tf tr n g itf ttf item =
      (and_then (case itf of None \<Rightarrow> Inr
           \<lparr>nrows = nat (nf + nr), ncols = 2 * nat n,
            cells = map (\<lambda>i. map (Reaching1D_cell nf n
                                     (\<lambda>k. cos (real k * (2 * pi / real_of_int n) - gt)) i)
                               [0..<2 * nat n])
                        [0..<nat (nf + nr)]\<rparr>
          | Some f \<Rightarrow> f
           \<lparr>nrows = nat (nf + nr), ncols = 2 * nat n,
            cells = map (\<lambda>i. map (Reaching1D_cell nf n
                                     (\<lambda>k. cos (real k * (2 * pi / real_of_int n) - gt)) i)
                               [0..<2 * nat n])
                        [0..<nat (nf + nr)]\<rparr>) (\<lambda>X1.
       and_then (case ttf of None \<Rightarrow> Inr (replicate (nat nf) (py_int pi) @ replicate (nat nr) (py_int gt))
          | Some h \<Rightarrow> h (replicate (nat nf) (py_int pi) @ replicate (nat nr) (py_int gt))) (\<lambda>Y1.
       Inr \<lparr>X = X1,
            X_ax0 = [(''fixation'', nf), (''reach'', nr)],
            X_ax1 = [(''target'', n), (''self'', n)],
            Y = Y1,
            Y_ax0 = [(''fixation'', nf), (''reach'', nr)]\<rparr>)),
       g')"
proof -
  define self where "self = \<lparr>dt = d, input_transform = itf, target_transform = ttf, rng = g,
          t_fixation = tf, num_choice = n,
          features = map (\<lambda>i. real i * (2 * pi / real_of_int n)) [0..<nat n],
          feature_periods = Dict [(''target'', n), (''self'', n)],
          t_reach = tr,
          input_features = map (\<lambda>i. ''target'' @ str_nat i) [0..<nat n]
                           @ map (\<lambda>i. ''self'' @ str_nat i) [0..<nat n]\<rparr>"
  have init: "Reaching1D_init d tf tr n g itf ttf = Inr self"
    using n by (simp add: Reaching1D_init_ok self_def)
  have cells: "map (\<lambda>i. map (Reaching1D_cell nf n (\<lambda>k. cos (features self ! k - gt)) i)
                  [0..<2 * nat n]) [0..<nat (nf + nr)]
      = map (\<lambda>i. map (Reaching1D_cell nf n
                        (\<lambda>k. cos (real k * (2 * pi / real_of_int n) - gt)) i)
                  [0..<2 * nat n]) [0..<nat (nf + nr)]"
  proof -
    have "Reaching1D_cell nf n (\<lambda>k. cos (features self ! k - gt)) i j
        = Reaching1D_cell nf n (\<lambda>k. cos (real k * (2 * pi / real_of_int n) - gt)) i j"
      for i j
      by (simp add: Reaching1D_cell_def self_def)
    then show ?thesis by simp
  qed
  have transforms: "input_transform self = itf" "target_transform self = ttf"
    by (simp_all add: self_def)
  have sample: "Reaching1D_sample_a_trial rng_uniform self item =
      (apply_transforms self
         \<lparr>nrows = nat (nf + nr), ncols = 2 * nat n,
          cells = map (\<lambda>i. map (Reaching1D_cell nf n (\<lambda>k. cos (features self ! k - gt)) i)
                             [0..<2 * nat n])
                      [0..<nat (nf + nr)]\<rparr>
         (replicate (nat nf) (py_int pi) @ replicate (nat nr) (py_int gt))
         [(''fixation'', nf), (''reach'', nr)]
         [(''target'', n), (''self'', n)], g')"
    unfolding nf_def nr_def
    by (rule Reaching1D_sample_closed_form [where rng_uniform = rng_uniform,
          OF init n dt dur draw])
  show ?thesis
    unfolding Reaching1D_first_trial_def init
    by (simp only: sum.case sample cells apply_transforms_def transforms)
qed

lemma replay_third: "replay_uniform [1 / 3] 0 (pi * 2) = (2 * pi / 3, [])"
  by simp

lemma upt_10: "[0..<10] = [0, 1, 2, 3, 4, 5, 6, 7, 8, 9]"
  by (simp add: upt_conv_Cons)

lemma pi_gt_three: "3 < pi"
proof -
  have le: "sin (pi / 12) \<le> pi / 12"
    by (rule sin_x_le_x) simp
  have pos: "0 < sin (pi / 12)"
    by (rule sin_gt_zero) simp_all
  have "cos (2 * (pi / 12)) = 1 - 2 * (sin (pi / 12))\<^sup>2"
    by (rule cos_double_sin)
  moreover have "2 * (pi / 12) = pi / 6"
    by simp
  ultimately have "sqrt 3 / 2 = 1 - 2 * (sin (pi / 12))\<^sup>2"
    by (simp only: cos_30)
  then have sq: "(sin (pi / 12))\<^sup>2 = (1 - sqrt 3 / 2) / 2"
    by (simp add: field_simps)
  have "sqrt 3 < 7 / 4"
    by (rule real_less_lsqrt) (simp_all add: power2_eq_square)
  then have low: "1 / 16 < (sin (pi / 12))\<^sup>2"
    unfolding sq by simp
  have "(sin (pi / 12))\<^sup>2 \<le> (pi / 12)\<^sup>2"
    using le pos by (simp add: power_mono)
  with low have "1 / 16 < (pi / 12)\<^sup>2"
    by linarith
  then have "3\<^sup>2 < pi\<^sup>2"
    by (simp add: power2_eq_square)
  then show ?thesis
    by (rule power2_less_imp_less) simp
qed

lemma py_int_pi: "py_int pi = 3"
proof -
  have "\<lfloor>pi\<rfloor> = 3"
    using pi_gt_three pi_less_4 by (simp add: floor_eq_iff)
  then show ?thesis by (simp add: py_int_def)
qed

lemma py_int_third_turn: "py_int (2 * pi / 3) = 2"
proof -
  have "\<lfloor>2 * pi / 3\<rfloor> = 2"
    using pi_gt_three pi_less_4 by (simp add: floor_eq_iff)
  then show ?thesis by (simp add: py_int_def)
qed

subsection \<open>Transforms and configuration\<close>

lemma and_then_assoc: "and_then (and_then m f) h = and_then m (\<lambda>x. and_then (f x) h)"
  by (cases m) simp_all

lemma apply_transforms_with:
  "apply_transforms self A ys d0 d1 =
   with_transforms (input_transform self) (target_transform self)
     \<lparr>X = A, X_ax0 = d0, X_ax1 = d1, Y = ys, Y_ax0 = d0\<rparr>"
  by (simp add: apply_transforms_def with_transforms_def split: option.splits)

lemma with_transforms_None: "with_transforms None None tr0 = Inr tr0"
  by (simp add: with_transforms_def)

lemma AntiReach_fill_transforms:
  "AntiReach_fill (self\<lparr>input_transform := itf, target_transform := ttf\<rparr>) tp X0 Y0 gt =
   and_then (AntiReach_fill (self\<lparr>input_transform := None, target_transform := None\<rparr>) tp X0 Y0 gt)
     (with_transforms itf ttf)"
  by (simp add: AntiReach_fill_def stim_theta_of_def apply_transforms_with with_transforms_None
      and_then_assoc Let_def)

lemma AntiReach_allocate_transforms:
  "AntiReach_allocate initialize (self\<lparr>input_transform := itf, target_transform := ttf\<rparr>)
   = AntiReach_allocate initialize self"
  by (simp add: AntiReach_allocate_def)

lemma AntiReach_sample_transforms:
  "AntiReach_sample_a_trial initialize rng_choice
     (self\<lparr>input_transform := itf, target_transform := ttf\<rparr>) item =
   (and_then (fst (AntiReach_sample_a_trial initialize rng_choice
                 (self\<lparr>input_transform := None, target_transform := None\<rparr>) item))
      (with_transforms itf ttf),
    snd (AntiReach_sample_a_trial initialize rng_choice
                 (self\<lparr>input_transform := None, target_transform := None\<rparr>) item))"
proof (cases "AntiReach_allocate initialize self")
  case (Inl e)
  then show ?thesis
    by (simp add: AntiReach_sample_a_trial_def AntiReach_allocate_transforms)
next
  case (Inr alloc)
  obtain tp X0 Y0 where alloc: "alloc = (tp, X0, Y0)"
    by (cases alloc)
  obtain r g' where draw: "rng_choice (rng self) (choices self) = (r, g')"
    by (cases "rng_choice (rng self) (choices self)")
  show ?thesis
  proof (cases r)
    case (Inl e)
    then show ?thesis
      by (simp add: AntiReach_sample_a_trial_def AntiReach_allocate_transforms Inr alloc draw)
  next
    case gt: (Inr ground_truth)
    have fill: "AntiReach_fill (self\<lparr>input_transform := itf, target_transform := ttf\<rparr>)
        tp X0 Y0 ground_truth =
      and_then (AntiReach_fill (self\<lparr>input_transform := None, target_transform := None\<rparr>)
        tp X0 Y0 ground_truth) (with_transforms itf ttf)"
      by (rule AntiReach_fill_transforms)
    from gt show ?thesis
      by (simp add: AntiReach_sample_a_trial_def AntiReach_allocate_transforms Inr alloc draw
          fill)
  qed
qed

lemma AntiReach_first_trial_transforms:
  "AntiReach_first_trial initialize rng_choice d a tf ts td tc n g itf ttf item =
   (and_then (fst (AntiReach_first_trial initialize rng_choice d a tf ts td tc n g None None item))
      (with_transforms itf ttf),
    snd (AntiReach_first_trial initialize rng_choice d a tf ts td tc n g None None item))"
proof (cases "n = 0")
  case True
  then show ?thesis
    by (simp add: AntiReach_first_trial_def AntiReach_init_zero)
next
  case False
  have "AntiReach_sample_a_trial initialize rng_choice
      (\<lparr>dt = d, input_transform = None, target_transform = None, rng = g,
          t_fixation = tf, num_choice = n,
          features = arange_real 0 (2 * pi) (2 * pi / real_of_int n),
          feature_periods = Dict [(''fixation'', 1), (''choice'', n)],
          t_stimulus = ts, t_delay = td, t_decision = tc,
          choices = arange n, anti = a\<rparr>\<lparr>input_transform := itf, target_transform := ttf\<rparr>) item
    = (and_then (fst (AntiReach_sample_a_trial initialize rng_choice
      (\<lparr>dt = d, input_transform = None, target_transform = None, rng = g,
          t_fixation = tf, num_choice = n,
          features = arange_real 0 (2 * pi) (2 * pi / real_of_int n),
          feature_periods = Dict [(''fixation'', 1), (''choice'', n)],
          t_stimulus = ts, t_delay = td, t_decision = tc,
          choices = arange n, anti = a\<rparr>\<lparr>input_transform := None, target_transform := None\<rparr>) item))
          (with_transforms itf ttf),
       snd (AntiReach_sample_a_trial initialize rng_choice
      (\<lparr>dt = d, input_transform = None, target_transform = None, rng = g,
          t_fixation = tf, num_choice = n,
          features = arange_real 0 (2 * pi) (2 * pi / real_of_int n),
          feature_periods = Dict [(''fixation'', 1), (''choice'', n)],
          t_stimulus = ts, t_delay = td, t_decision = tc,
          choices = arange n, anti = a\<rparr>\<lparr>input_transform := None, target_transform := None\<rparr>) item))"
    by (rule AntiReach_sample_transforms)
  then show ?thesis
    using False by (simp add: AntiReach_first_trial_def AntiReach_init_ok)
qed


lemma Reaching1D_fill_transforms:
  "Reaching1D_fill (self\<lparr>input_transform := itf, target_transform := ttf\<rparr>) tp X0 Y0 gt =
   and_then (Reaching1D_fill (self\<lparr>input_transform := None, target_transform := None\<rparr>) tp X0 Y0 gt)
     (with_transforms itf ttf)"
  by (simp add: Reaching1D_fill_def apply_transforms_with with_transforms_None
      and_then_assoc Let_def)

lemma Reaching1D_allocate_transforms:
  "Reaching1D_allocate (self\<lparr>input_transform := itf, target_transform := ttf\<rparr>)
   = Reaching1D_allocate self"
  by (simp add: Reaching1D_allocate_def)

lemma Reaching1D_sample_transforms:
  "Reaching1D_sample_a_trial rng_uniform
     (self\<lparr>input_transform := itf, target_transform := ttf\<rparr>) item =
   (and_then (fst (Reaching1D_sample_a_trial rng_uniform
                 (self\<lparr>input_transform := None, target_transform := None\<rparr>) item))
      (with_transforms itf ttf),
    snd (Reaching1D_sample_a_trial rng_uniform
                 (self\<lparr>input_transform := None, target_transform := None\<rparr>) item))"
proof (cases "Reaching1D_allocate self")
  case (Inl e)
  then show ?thesis
    by (simp add: Reaching1D_sample_a_trial_def Reaching1D_allocate_transforms)
next
  case (Inr alloc)
  obtain tp X0 Y0 where alloc: "alloc = (tp, X0, Y0)"
    by (cases alloc)
  obtain gt g' where draw: "rng_uniform (rng self) 0 (pi * 2) = (gt, g')"
    by (cases "rng_uniform (rng self) 0 (pi * 2)")
  have fill: "Reaching1D_fill (self\<lparr>input_transform := itf, target_transform := ttf\<rparr>)
      tp X0 Y0 gt =
    and_then (Reaching1D_fill (self\<lparr>input_transform := None, target_transform := None\<rparr>)
      tp X0 Y0 gt) (with_transforms itf ttf)"
    by (rule Reaching1D_fill_transforms)
  show ?thesis
    by (simp add: Reaching1D_sample_a_trial_def Reaching1D_allocate_transforms Inr alloc draw fill)
qed

lemma Reaching1D_first_trial_transforms:
  "Reaching1D_first_trial rng_uniform d tf tr n g itf ttf item =
   (and_then (fst (Reaching1D_first_trial rng_uniform d tf tr n g None None item))
      (with_transforms itf ttf),
    snd (Reaching1D_first_trial rng_uniform d tf tr n g None None item))"
proof (cases "linspace 0 (2 * pi) (n + 1)")
  case (Inl e)
  then show ?thesis
    by (simp add: Reaching1D_first_trial_def Reaching1D_init_def)
next
  case (Inr points)
  define plain where "plain = \<lparr>dt = d, input_transform = None, target_transform = None, rng = g,
          t_fixation = tf, num_choice = n, features = butlast points,
          feature_periods = Dict [(''target'', n), (''self'', n)],
          t_reach = tr,
          input_features = map (\<lambda>i. ''target'' @ str_nat i) [0..<nat n]
                           @ map (\<lambda>i. ''self'' @ str_nat i) [0..<nat n]\<rparr>"
  have init: "Reaching1D_init d tf tr n g itf ttf
      = Inr (plain\<lparr>input_transform := itf, target_transform := ttf\<rparr>)" for itf ttf
    by (simp add: Reaching1D_init_def Inr plain_def)
  have sample: "Reaching1D_sample_a_trial rng_uniform
       (plain\<lparr>input_transform := itf, target_transform := ttf\<rparr>) item =
     (and_then (fst (Reaching1D_sample_a_trial rng_uniform
                   (plain\<lparr>input_transform := None, target_transform := None\<rparr>) item))
        (with_transforms itf ttf),
      snd (Reaching1D_sample_a_trial rng_uniform
                   (plain\<lparr>input_transform := None, target_transform := None\<rparr>) item))"
    by (rule Reaching1D_sample_transforms)
  show ?thesis
    unfolding Reaching1D_first_trial_def init sum.case by (rule sample)
qed

lemma with_transforms_identity:
  "(itf = None \<or> itf = Some Inr) \<Longrightarrow> (ttf = None \<or> ttf = Some Inr) \<Longrightarrow>
   with_transforms itf ttf tr0 = Inr tr0"
  by (auto simp add: with_transforms_def)

lemma with_transforms_input_error:
  "f (X tr0) = Inl e \<Longrightarrow> with_transforms (Some f) ttf tr0 = Inl e"
  by (simp add: with_transforms_def)

lemma with_transforms_target_error:
  "itf = None \<or> (\<exists>f X1. itf = Some f \<and> f (X tr0) = Inr X1) \<Longrightarrow> h (Y tr0) = Inl e \<Longrightarrow>
   with_transforms itf (Some h) tr0 = Inl e"
  by (auto simp add: with_transforms_def)

lemma and_then_same: "(\<And>x. m = Inr x \<Longrightarrow> f x = Inr x) \<Longrightarrow> and_then m f = m"
  by (cases m) simp_all

lemma AntiReach_example_returns:
  assumes "replay_choice ks (arange 4) = (Inr gt, ks')" "gt \<in> set (arange 4)"
  shows "\<exists>tr0. fst (AntiReach_first_trial (\<lambda>t. t) replay_choice 100 a 500 500 0 500 4 ks None None ())
               = Inr tr0"
  using AntiReach_first_trial_closed_form [where initialize = "\<lambda>t. t" and d = 100
      and tf = 500 and ts = 500 and td = 0 and tc = 500 and rng_choice = replay_choice
      and a = a and itf = None and ttf = None and item = "()",
      OF example_durations(1,2,2,3,2) assms refl]
  by simp

lemma Reaching1D_example_returns:
  "\<exists>tr0. fst (Reaching1D_first_trial replay_uniform 100 500 500 2 [1 / 3] None None ()) = Inr tr0"
proof -
  have two: "(0::int) \<le> 2" by simp
  show ?thesis
    using Reaching1D_first_trial_closed_form [where rng_uniform = replay_uniform and d = 100
      and tf = 500 and tr = 500 and n = 2 and itf = None and ttf = None and item = "()",
      OF two example_durations(1,2,2) replay_third]
    by simp
qed

lemma AntiReach_fill_config:
  assumes "input_transform self1 = input_transform self2"
    "target_transform self1 = target_transform self2"
    "num_choice self1 = num_choice self2" "features self1 = features self2"
    "feature_periods self1 = feature_periods self2" "anti self1 = anti self2"
  shows "AntiReach_fill self1 tp X0 Y0 gt = AntiReach_fill self2 tp X0 Y0 gt"
  using assms by (simp add: AntiReach_fill_def stim_theta_of_def apply_transforms_def)

lemma Reaching1D_fill_config:
  assumes "input_transform r1 = input_transform r2" "target_transform r1 = target_transform r2"
    "num_choice r1 = num_choice r2" "features r1 = features r2"
    "feature_periods r1 = feature_periods r2"
  shows "Reaching1D_fill r1 tp X0 Y0 gt = Reaching1D_fill r2 tp X0 Y0 gt"
  using assms by (simp add: Reaching1D_fill_def apply_transforms_def)

subsection \<open>Shapes\<close>








section \<open>Properties of interval_of\<close>

lemma interval_loop_first_match:
  "elem \<notin> fst ` set pre \<Longrightarrow>
   interval_loop elem (pre @ (elem, v) # post) s =
     Inr \<lparr>start = s + sum_list (map snd pre), stop = s + sum_list (map snd pre) + v\<rparr>"
proof (induction pre arbitrary: s)
  case Nil
  show ?case by simp
next
  case (Cons kv pre)
  obtain k w where kv: "kv = (k, w)" by (cases kv)
  from Cons.prems kv have ne: "k \<noteq> elem" and rest: "elem \<notin> fst ` set pre"
    by auto
  show ?case
    using Cons.IH [OF rest, of "s + w"] ne kv by (simp add: add.assoc)
qed

lemma interval_loop_absent:
  "elem \<notin> fst ` set kvs \<Longrightarrow> interval_loop elem kvs s = Inl (ValueError ''Not found'')"
  by (induction kvs arbitrary: s) auto

lemma first_occurrence:
  assumes "elem \<in> fst ` set kvs"
  shows "\<exists>pre v post. kvs = pre @ (elem, v) # post \<and> elem \<notin> fst ` set pre"
proof -
  from assms have "elem \<in> set (map fst kvs)" by simp
  from split_list_first [OF this]
  obtain ks ls where split: "map fst kvs = ks @ elem # ls" and first: "elem \<notin> set ks"
    by blast
  define pre where "pre = take (length ks) kvs"
  define post where "post = drop (Suc (length ks)) kvs"
  have len: "length ks < length kvs"
    using arg_cong [OF split, of length] by simp
  have pre_keys: "map fst pre = ks"
    using arg_cong [OF split, of "take (length ks)"] by (simp add: pre_def take_map)
  have key: "fst (kvs ! length ks) = elem"
    using arg_cong [OF split, of "\<lambda>xs. xs ! length ks"] len by simp
  have "kvs = pre @ kvs ! length ks # post"
    unfolding pre_def post_def using len by (simp add: id_take_nth_drop [symmetric])
  moreover have "kvs ! length ks = (elem, snd (kvs ! length ks))"
    using key by (simp add: prod_eq_iff)
  moreover have "elem \<notin> fst ` set pre"
    using first pre_keys by (metis list.set_map)
  ultimately show ?thesis by metis
qed

text \<open>
  C1. For a layout that contains the name, \<open>interval_of\<close> returns the slice of the first
  entry with that name: the layout splits as \<open>pre @ (elem, v) # post\<close> with no entry of
  \<open>pre\<close> named \<open>elem\<close>, the slice starts at the sum of the lengths in \<open>pre\<close> and stops
  \<open>v\<close> later. Entries named \<open>elem\<close> in \<open>post\<close> (duplicates) play no role. The same holds
  for a dict and for a sequence.
\<close>

theorem interval_of_first_match:
  assumes "elem \<in> fst ` set (items tot)"
  shows "\<exists>pre v post. items tot = pre @ (elem, v) # post \<and> elem \<notin> fst ` set pre \<and>
           interval_of elem tot =
             Inr \<lparr>start = sum_list (map snd pre), stop = sum_list (map snd pre) + v\<rparr>"
proof -
  from first_occurrence [OF assms] obtain pre v post
    where split: "items tot = pre @ (elem, v) # post" and first: "elem \<notin> fst ` set pre"
    by blast
  have "interval_of elem tot =
      Inr \<lparr>start = sum_list (map snd pre), stop = sum_list (map snd pre) + v\<rparr>"
    unfolding interval_of_def split using interval_loop_first_match [OF first, of v post 0]
    by simp
  with split first show ?thesis by blast
qed

theorem interval_of_first_match_witness:
  "interval_of ''b'' (Seq [(''a'', 2), (''b'', 3), (''b'', 7), (''c'', 1)])
     = Inr \<lparr>start = 2, stop = 5\<rparr>
   \<and> interval_of ''b'' (Dict [(''a'', 2), (''b'', 3), (''c'', 1)]) = Inr \<lparr>start = 2, stop = 5\<rparr>"
proof -
  have "''b'' \<in> fst ` set (items (Seq [(''a'', 2), (''b'', 3), (''b'', 7), (''c'', 1)]))"
    by simp
  from interval_of_first_match [OF this]
  have "\<exists>sl. interval_of ''b'' (Seq [(''a'', 2), (''b'', 3), (''b'', 7), (''c'', 1)]) = Inr sl"
    by blast
  then show ?thesis by (simp add: interval_of_def)
qed

text \<open>
  C2. For a name that no entry of the layout carries, \<open>interval_of\<close> raises
  \<^verbatim>\<open>ValueError('Not found')\<close> and returns no slice.
\<close>

theorem interval_of_absent:
  "elem \<notin> fst ` set (items tot) \<Longrightarrow> interval_of elem tot = Inl (ValueError ''Not found'')"
  unfolding interval_of_def by (rule interval_loop_absent)

theorem interval_of_absent_witness:
  "''d'' \<notin> fst ` set (items (Seq [(''a'', 2), (''b'', 3)]))
   \<and> interval_of ''d'' (Seq [(''a'', 2), (''b'', 3)]) = Inl (ValueError ''Not found'')
   \<and> interval_of ''d'' (Dict []) = Inl (ValueError ''Not found'')"
  using interval_of_absent [of "''d''" "Seq [(''a'', 2), (''b'', 3)]"]
    interval_of_absent [of "''d''" "Dict []"]
  by simp

section \<open>Properties of AntiReach trials\<close>

text \<open>
  In the theorems below \<open>d\<close> is the step size \<^verbatim>\<open>dt\<close>; \<open>nf\<close>, \<open>ns\<close>, \<open>nd\<close> and
  \<open>nc\<close> are the step counts of the fixation, stimulus, delay and decision segments.
  The hypotheses are those the specification makes: a positive step size, non-negative
  realised durations, and a generator whose \<^verbatim>\<open>choice\<close> returns an element of the array it
  is given.
\<close>



text \<open>
  C5. The configuration \<^verbatim>\<open>dt=100, t_fixation=500, t_stimulus=500, t_delay=0,
  t_decision=500, num_choice=4, anti=True\<close> with no transforms, for every draw of the
  generator: the trial has 15 time steps and 5 input channels, and the fixation channel
  (channel 0) is 1 on the steps \<open>[0, 10)\<close> of the fixation, stimulus and delay segments
  and 0 on the steps \<open>[10, 15)\<close> of the decision segment.
\<close>

theorem AntiReach_example_fixation_channel:
  assumes draw: "rng_choice g (arange 4) = (Inr ground_truth, g')"
    and mem: "ground_truth \<in> set (arange 4)"
  shows "\<exists>tr. fst (AntiReach_first_trial (\<lambda>t. t) rng_choice 100 True 500 500 0 500 4 g None None item)
            = Inr tr
      \<and> nrows (X tr) = 15 \<and> length (cells (X tr)) = 15 \<and> length (Y tr) = 15
      \<and> ncols (X tr) = 5 \<and> (\<forall>i<15. length (cells (X tr) ! i) = 5)
      \<and> (\<forall>i<15. cells (X tr) ! i ! 0 = (if i < 10 then 1 else 0))"
proof -
  note form = AntiReach_first_trial_closed_form [where initialize = "\<lambda>t. t" and d = 100
      and tf = 500 and ts = 500 and td = 0 and tc = 500 and rng_choice = rng_choice
      and a = True and itf = None and ttf = None and item = item,
      OF example_durations(1,2,2,3,2) draw mem refl, unfolded example_steps]
  show ?thesis
    unfolding form by (simp add: AntiReach_cell_def)
qed

theorem AntiReach_example_fixation_channel_witness:
  "\<exists>tr. fst (AntiReach_first_trial (\<lambda>t. t) replay_choice 100 True 500 500 0 500 4 [3] None None ())
          = Inr tr
        \<and> nrows (X tr) = 15 \<and> ncols (X tr) = 5
        \<and> cells (X tr) ! 9 ! 0 = 1 \<and> cells (X tr) ! 10 ! 0 = 0 \<and> cells (X tr) ! 14 ! 0 = 0"
proof -
  have draw: "replay_choice [3] (arange 4) = (Inr 3, [])"
    by (simp add: arange_4)
  have mem: "(3::int) \<in> set (arange 4)"
    by (simp add: in_arange)
  from AntiReach_example_fixation_channel [of replay_choice, OF draw mem, of "()"]
  show ?thesis by auto
qed

text \<open>
  C5 as stated asks for the fixation channel to be 1 on all of \<open>[0, 15)\<close>. The trial for
  the draw \<open>ground_truth = 0\<close>, in full: the rows 10 to 14 are zero.
\<close>

theorem AntiReach_example_fixation_channel_counterexample:
  "AntiReach_first_trial (\<lambda>t. t) replay_choice 100 True 500 500 0 500 4 [0] None None () =
     (Inr \<lparr>X = \<lparr>nrows = 15, ncols = 5,
                cells = [[1, 0, 0, 0, 0], [1, 0, 0, 0, 0], [1, 0, 0, 0, 0], [1, 0, 0, 0, 0],
                         [1, 0, 0, 0, 0],
                         [1, - 1, 0, 1, 0], [1, - 1, 0, 1, 0], [1, - 1, 0, 1, 0],
                         [1, - 1, 0, 1, 0], [1, - 1, 0, 1, 0],
                         [0, 0, 0, 0, 0], [0, 0, 0, 0, 0], [0, 0, 0, 0, 0], [0, 0, 0, 0, 0],
                         [0, 0, 0, 0, 0]]\<rparr>,
          X_ax0 = [(''fixation'', 5), (''stimulus'', 5), (''delay'', 0), (''decision'', 5)],
          X_ax1 = [(''fixation'', 1), (''stimulus'', 4)],
          Y = [0, 0, 0, 0, 0, 0, 0, 0, 0, 0, 1, 1, 1, 1, 1],
          Y_ax0 = [(''fixation'', 5), (''stimulus'', 5), (''delay'', 0), (''decision'', 5)]\<rparr>,
      [])"
proof -
  have draw: "replay_choice [0] (arange 4) = (Inr 0, [])"
    by (simp add: arange_4)
  have mem: "(0::int) \<in> set (arange 4)"
    by (simp add: in_arange)
  note form = AntiReach_first_trial_closed_form [where initialize = "\<lambda>t. t" and d = 100
      and tf = 500 and ts = 500 and td = 0 and tc = 500 and rng_choice = replay_choice
      and a = True and itf = None and ttf = None and item = "()",
      OF example_durations(1,2,2,3,2) draw mem refl, unfolded example_steps]
  have target: "replicate 10 (0::int) @ replicate 5 1 = [0, 0, 0, 0, 0, 0, 0, 0, 0, 0, 1, 1, 1, 1, 1]"
    by (simp add: numeral_eq_Suc)
  show ?thesis
    unfolding form
    by (simp add: AntiReach_cell_def upt_5 upt_15 np_mod_pi quarter_turns
        cos_three_quarter_turn target)
qed





section \<open>Properties of Reaching1D trials\<close>



text \<open>
  C6. \<open>Y\<close> is allocated with \<^verbatim>\<open>dtype=int\<close>, so the assignments \<^verbatim>\<open>Y[ax0_fixation] = np.pi\<close>
  and \<^verbatim>\<open>Y[ax0_reach] = ground_truth\<close> store the integer parts. The trial for
  \<^verbatim>\<open>dt=100, t_fixation=500, t_reach=500, num_choice=2\<close> and the draw
  \<open>ground_truth = 2 * pi / 3\<close>, in full: \<open>Y\<close> is 3 on the fixation segment and 2 on the
  reach segment, below \<open>pi\<close> and below \<open>ground_truth\<close>.
\<close>

theorem Reaching1D_target_is_truncated:
  "Reaching1D_first_trial replay_uniform 100 500 500 2 [1 / 3] None None () =
     (Inr \<lparr>X = \<lparr>nrows = 10, ncols = 4,
                cells = [[0, 0, 0, 0], [0, 0, 0, 0], [0, 0, 0, 0], [0, 0, 0, 0], [0, 0, 0, 0],
                         [- 1 / 2, 1 / 2, 0, 0], [- 1 / 2, 1 / 2, 0, 0], [- 1 / 2, 1 / 2, 0, 0],
                         [- 1 / 2, 1 / 2, 0, 0], [- 1 / 2, 1 / 2, 0, 0]]\<rparr>,
          X_ax0 = [(''fixation'', 5), (''reach'', 5)],
          X_ax1 = [(''target'', 2), (''self'', 2)],
          Y = [3, 3, 3, 3, 3, 2, 2, 2, 2, 2],
          Y_ax0 = [(''fixation'', 5), (''reach'', 5)]\<rparr>,
      [])
   \<and> real_of_int 3 < pi \<and> real_of_int 2 < 2 * pi / 3"
proof -
  have two: "(0::int) \<le> 2" by simp
  note form = Reaching1D_first_trial_closed_form [where rng_uniform = replay_uniform and d = 100
      and tf = 500 and tr = 500 and n = 2 and itf = None and ttf = None and item = "()",
      OF two example_durations(1,2,2) replay_third, unfolded example_steps]
  have target: "replicate 5 (3::int) @ replicate 5 2 = [3, 3, 3, 3, 3, 2, 2, 2, 2, 2]"
    by (simp add: numeral_eq_Suc)
  have resp: "cos (2 * pi / 3) = - 1 / 2" "cos (pi - 2 * pi / 3) = 1 / 2"
  proof -
    show "cos (2 * pi / 3) = - 1 / 2" by (rule third_turns(1))
    have "pi - 2 * pi / 3 = pi / 3" by simp
    then show "cos (pi - 2 * pi / 3) = 1 / 2" by (simp only: cos_60)
  qed
  have trial: "Reaching1D_first_trial replay_uniform 100 500 500 2 [1 / 3] None None () =
     (Inr \<lparr>X = \<lparr>nrows = 10, ncols = 4,
                cells = [[0, 0, 0, 0], [0, 0, 0, 0], [0, 0, 0, 0], [0, 0, 0, 0], [0, 0, 0, 0],
                         [- 1 / 2, 1 / 2, 0, 0], [- 1 / 2, 1 / 2, 0, 0], [- 1 / 2, 1 / 2, 0, 0],
                         [- 1 / 2, 1 / 2, 0, 0], [- 1 / 2, 1 / 2, 0, 0]]\<rparr>,
          X_ax0 = [(''fixation'', 5), (''reach'', 5)],
          X_ax1 = [(''target'', 2), (''self'', 2)],
          Y = [3, 3, 3, 3, 3, 2, 2, 2, 2, 2],
          Y_ax0 = [(''fixation'', 5), (''reach'', 5)]\<rparr>,
      [])"
    unfolding form
    by (simp add: Reaching1D_cell_def upt_4 upt_10 py_int_pi py_int_third_turn target resp cos_60)
  have "real_of_int 3 < pi" "real_of_int 2 < 2 * pi / 3"
    using pi_gt_three by simp_all
  with trial show ?thesis by blast
qed

section \<open>Properties of both tasks\<close>

text \<open>
  C8. For both tasks, two calls of \<^verbatim>\<open>sample_a_trial\<close> on tasks with the same
  configuration (step size, choice count, feature angles, layouts, \<open>anti\<close>, transforms),
  the same realised durations and the same generator state return the same result: the
  same \<open>X\<close>, \<open>Y\<close> and metadata, or the same exception, and leave the generator in the
  same state. The duration samplers and the argument \<open>item\<close> may differ. Equality of
  \<open>X\<close> is equality of real numbers: the bits of a float are not modelled.
\<close>

theorem sample_a_trial_deterministic:
  assumes config: "dt self1 = dt self2" "num_choice self1 = num_choice self2"
      "features self1 = features self2" "choices self1 = choices self2"
      "feature_periods self1 = feature_periods self2" "anti self1 = anti self2"
      "input_transform self1 = input_transform self2"
      "target_transform self1 = target_transform self2"
    and state: "rng self1 = rng self2"
    and durations: "initialize1 (t_fixation self1) = initialize2 (t_fixation self2)"
      "initialize1 (t_stimulus self1) = initialize2 (t_stimulus self2)"
      "initialize1 (t_delay self1) = initialize2 (t_delay self2)"
      "initialize1 (t_decision self1) = initialize2 (t_decision self2)"
    and config': "dt r1 = dt r2" "num_choice r1 = num_choice r2" "features r1 = features r2"
      "feature_periods r1 = feature_periods r2" "input_features r1 = input_features r2"
      "input_transform r1 = input_transform r2" "target_transform r1 = target_transform r2"
    and state': "rng r1 = rng r2"
    and durations': "t_fixation r1 = t_fixation r2" "t_reach r1 = t_reach r2"
  shows "AntiReach_sample_a_trial initialize1 rng_choice self1 item1
         = AntiReach_sample_a_trial initialize2 rng_choice self2 item2
     \<and> Reaching1D_sample_a_trial rng_uniform r1 item1' = Reaching1D_sample_a_trial rng_uniform r2 item2'"
proof
  have alloc: "AntiReach_allocate initialize1 self1 = AntiReach_allocate initialize2 self2"
    by (simp add: AntiReach_allocate_def config durations)
  have fill: "AntiReach_fill self1 tp X0 Y0 gt = AntiReach_fill self2 tp X0 Y0 gt" for tp X0 Y0 gt
    by (rule AntiReach_fill_config) (simp_all add: config)
  show "AntiReach_sample_a_trial initialize1 rng_choice self1 item1
         = AntiReach_sample_a_trial initialize2 rng_choice self2 item2"
    by (simp add: AntiReach_sample_a_trial_def alloc state config(4) fill
        split: sum.splits prod.splits)
  have alloc': "Reaching1D_allocate r1 = Reaching1D_allocate r2"
    by (simp add: Reaching1D_allocate_def config' durations')
  have fill': "Reaching1D_fill r1 tp X0 Y0 gt = Reaching1D_fill r2 tp X0 Y0 gt" for tp X0 Y0 gt
    by (rule Reaching1D_fill_config) (simp_all add: config')
  show "Reaching1D_sample_a_trial rng_uniform r1 item1' = Reaching1D_sample_a_trial rng_uniform r2 item2'"
    by (simp add: Reaching1D_sample_a_trial_def alloc' state' fill'
        split: sum.splits prod.splits)
qed

theorem sample_a_trial_deterministic_witness:
  "AntiReach_first_trial (\<lambda>t. t) replay_choice 100 True 500 500 0 500 4 [2] None None ()
     = AntiReach_first_trial (\<lambda>t. 5 * t) replay_choice 100 True 100 100 0 100 4 [2] None None True
   \<and> Reaching1D_first_trial replay_uniform 100 500 500 2 [1 / 3] None None ()
     = Reaching1D_first_trial replay_uniform 100 500 500 2 [1 / 3] None None True"
proof -
  define self1 :: "(real, nat list) AntiReach" where
    "self1 = \<lparr>dt = 100, input_transform = None, target_transform = None, rng = [2],
          t_fixation = 500, num_choice = 4,
          features = arange_real 0 (2 * pi) (2 * pi / real_of_int 4),
          feature_periods = Dict [(''fixation'', 1), (''choice'', 4)],
          t_stimulus = 500, t_delay = 0, t_decision = 500,
          choices = arange 4, anti = True\<rparr>"
  define self2 :: "(real, nat list) AntiReach" where
    "self2 = \<lparr>dt = 100, input_transform = None, target_transform = None, rng = [2],
          t_fixation = 100, num_choice = 4,
          features = arange_real 0 (2 * pi) (2 * pi / real_of_int 4),
          feature_periods = Dict [(''fixation'', 1), (''choice'', 4)],
          t_stimulus = 100, t_delay = 0, t_decision = 100,
          choices = arange 4, anti = True\<rparr>"
  have init1: "AntiReach_init 100 True 500 500 0 500 4 [2::nat] None None = Inr self1"
    unfolding self1_def by (rule AntiReach_init_ok) simp
  have init2: "AntiReach_init 100 True 100 100 0 100 4 [2::nat] None None = Inr self2"
    unfolding self2_def by (rule AntiReach_init_ok) simp
  have "\<exists>r :: real list Reaching1D. Reaching1D_init 100 500 500 2 [1 / 3] None None = Inr r"
    by (intro exI) (rule Reaching1D_init_ok, simp)
  then obtain r :: "real list Reaching1D" where
    init: "Reaching1D_init 100 500 500 2 [1 / 3] None None = Inr r" ..
  have "AntiReach_sample_a_trial (\<lambda>t. t) replay_choice self1 ()
         = AntiReach_sample_a_trial (\<lambda>t. 5 * t) replay_choice self2 True
     \<and> Reaching1D_sample_a_trial replay_uniform r () = Reaching1D_sample_a_trial replay_uniform r True"
    by (rule sample_a_trial_deterministic) (simp_all add: self1_def self2_def)
  then show ?thesis
    by (simp add: AntiReach_first_trial_def Reaching1D_first_trial_def init1 init2 init)
qed

text \<open>
  C9. For both tasks: with the identity as input transform, as target transform or as
  both, the call returns what it returns with no transform. If the call with no transform
  returns the trial \<open>tr0\<close>, an input transform that raises \<open>e\<close> on \<open>X tr0\<close> makes the
  call raise \<open>e\<close>, and so does a target transform that raises \<open>e\<close> on \<open>Y tr0\<close> when the
  input transform is absent or returns; no trial is returned then.
\<close>

theorem transforms_identity_and_errors:
  "((itf = None \<or> itf = Some Inr) \<and> (ttf = None \<or> ttf = Some Inr) \<longrightarrow>
      AntiReach_first_trial initialize rng_choice d a tf ts td tc n g itf ttf item
      = AntiReach_first_trial initialize rng_choice d a tf ts td tc n g None None item)
   \<and> (\<forall>tr0 f e.
        fst (AntiReach_first_trial initialize rng_choice d a tf ts td tc n g None None item) = Inr tr0
        \<and> f (X tr0) = Inl e \<longrightarrow>
        fst (AntiReach_first_trial initialize rng_choice d a tf ts td tc n g (Some f) ttf item) = Inl e)
   \<and> (\<forall>tr0 h e.
        fst (AntiReach_first_trial initialize rng_choice d a tf ts td tc n g None None item) = Inr tr0
        \<and> (itf = None \<or> (\<exists>f X1. itf = Some f \<and> f (X tr0) = Inr X1))
        \<and> h (Y tr0) = Inl e \<longrightarrow>
        fst (AntiReach_first_trial initialize rng_choice d a tf ts td tc n g itf (Some h) item) = Inl e)
   \<and> ((itf = None \<or> itf = Some Inr) \<and> (ttf = None \<or> ttf = Some Inr) \<longrightarrow>
      Reaching1D_first_trial rng_uniform d' tf' tr' n' g' itf ttf item'
      = Reaching1D_first_trial rng_uniform d' tf' tr' n' g' None None item')
   \<and> (\<forall>tr0 f e.
        fst (Reaching1D_first_trial rng_uniform d' tf' tr' n' g' None None item') = Inr tr0
        \<and> f (X tr0) = Inl e \<longrightarrow>
        fst (Reaching1D_first_trial rng_uniform d' tf' tr' n' g' (Some f) ttf item') = Inl e)
   \<and> (\<forall>tr0 h e.
        fst (Reaching1D_first_trial rng_uniform d' tf' tr' n' g' None None item') = Inr tr0
        \<and> (itf = None \<or> (\<exists>f X1. itf = Some f \<and> f (X tr0) = Inr X1))
        \<and> h (Y tr0) = Inl e \<longrightarrow>
        fst (Reaching1D_first_trial rng_uniform d' tf' tr' n' g' itf (Some h) item') = Inl e)"
proof -
  note A = AntiReach_first_trial_transforms [of initialize rng_choice d a tf ts td tc n g _ _ item]
  note R = Reaching1D_first_trial_transforms [of rng_uniform d' tf' tr' n' g' _ _ item']
  have A1: "AntiReach_first_trial initialize rng_choice d a tf ts td tc n g itf ttf item
      = AntiReach_first_trial initialize rng_choice d a tf ts td tc n g None None item"
    if "itf = None \<or> itf = Some Inr" "ttf = None \<or> ttf = Some Inr"
    by (subst A) (simp add: and_then_same with_transforms_identity [OF that])
  have R1: "Reaching1D_first_trial rng_uniform d' tf' tr' n' g' itf ttf item'
      = Reaching1D_first_trial rng_uniform d' tf' tr' n' g' None None item'"
    if "itf = None \<or> itf = Some Inr" "ttf = None \<or> ttf = Some Inr"
    by (subst R) (simp add: and_then_same with_transforms_identity [OF that])
  have A2: "fst (AntiReach_first_trial initialize rng_choice d a tf ts td tc n g (Some f) ttf item) = Inl e"
    if "fst (AntiReach_first_trial initialize rng_choice d a tf ts td tc n g None None item) = Inr tr0"
      "f (X tr0) = Inl e" for tr0 f e
    by (subst A) (simp add: that with_transforms_input_error)
  have R2: "fst (Reaching1D_first_trial rng_uniform d' tf' tr' n' g' (Some f) ttf item') = Inl e"
    if "fst (Reaching1D_first_trial rng_uniform d' tf' tr' n' g' None None item') = Inr tr0"
      "f (X tr0) = Inl e" for tr0 f e
    by (subst R) (simp add: that with_transforms_input_error)
  have A3: "fst (AntiReach_first_trial initialize rng_choice d a tf ts td tc n g itf (Some h) item) = Inl e"
    if "fst (AntiReach_first_trial initialize rng_choice d a tf ts td tc n g None None item) = Inr tr0"
      "itf = None \<or> (\<exists>f X1. itf = Some f \<and> f (X tr0) = Inr X1)" "h (Y tr0) = Inl e" for tr0 h e
    by (subst A) (simp add: that(1) with_transforms_target_error [where h = h, OF that(2,3)])
  have R3: "fst (Reaching1D_first_trial rng_uniform d' tf' tr' n' g' itf (Some h) item') = Inl e"
    if "fst (Reaching1D_first_trial rng_uniform d' tf' tr' n' g' None None item') = Inr tr0"
      "itf = None \<or> (\<exists>f X1. itf = Some f \<and> f (X tr0) = Inr X1)" "h (Y tr0) = Inl e" for tr0 h e
    by (subst R) (simp add: that(1) with_transforms_target_error [where h = h, OF that(2,3)])
  from A1 A2 A3 R1 R2 R3 show ?thesis by blast
qed

theorem transforms_identity_and_errors_witness:
  "AntiReach_first_trial (\<lambda>t. t) replay_choice 100 True 500 500 0 500 4 [2] (Some Inr) (Some Inr) ()
     = AntiReach_first_trial (\<lambda>t. t) replay_choice 100 True 500 500 0 500 4 [2] None None ()
   \<and> fst (AntiReach_first_trial (\<lambda>t. t) replay_choice 100 True 500 500 0 500 4 [2]
            (Some (\<lambda>A. Inl (Raised ''boom''))) None ()) = Inl (Raised ''boom'')
   \<and> fst (Reaching1D_first_trial replay_uniform 100 500 500 2 [1 / 3]
            None (Some (\<lambda>ys. Inl (Raised ''boom''))) ()) = Inl (Raised ''boom'')"
proof -
  have draw: "replay_choice [2] (arange 4) = (Inr 2, [])"
    by (simp add: arange_4)
  have mem: "(2::int) \<in> set (arange 4)"
    by (simp add: in_arange)
  from AntiReach_example_returns [OF draw mem, of True] obtain tr0 where
    A: "fst (AntiReach_first_trial (\<lambda>t. t) replay_choice 100 True 500 500 0 500 4 [2] None None ())
          = Inr tr0" ..
  from Reaching1D_example_returns obtain tr1 where
    R: "fst (Reaching1D_first_trial replay_uniform 100 500 500 2 [1 / 3] None None ()) = Inr tr1" ..
  note same = transforms_identity_and_errors [where itf = "Some Inr" and ttf = "Some Inr"
      and initialize = "\<lambda>t. t" and rng_choice = replay_choice and d = 100 and a = True
      and tf = 500 and ts = 500 and td = 0 and tc = 500 and n = 4 and g = "[2]" and item = "()"]
  note raised = transforms_identity_and_errors [where itf = None and ttf = None
      and initialize = "\<lambda>t. t" and rng_choice = replay_choice and d = 100 and a = True
      and tf = 500 and ts = 500 and td = 0 and tc = 500 and n = 4 and g = "[2]" and item = "()"
      and rng_uniform = replay_uniform and d' = 100 and tf' = 500 and tr' = 500 and n' = 2
      and g' = "[1 / 3]" and item' = "()"]
  have "AntiReach_first_trial (\<lambda>t. t) replay_choice 100 True 500 500 0 500 4 [2] (Some Inr) (Some Inr) ()
     = AntiReach_first_trial (\<lambda>t. t) replay_choice 100 True 500 500 0 500 4 [2] None None ()"
    using same [THEN conjunct1] by simp
  moreover have "fst (AntiReach_first_trial (\<lambda>t. t) replay_choice 100 True 500 500 0 500 4 [2]
            (Some (\<lambda>A. Inl (Raised ''boom''))) None ()) = Inl (Raised ''boom'')"
    using raised [THEN conjunct2, THEN conjunct1, rule_format,
        of tr0 "\<lambda>A. Inl (Raised ''boom'')" "Raised ''boom''"] A
    by simp
  moreover have "fst (Reaching1D_first_trial replay_uniform 100 500 500 2 [1 / 3]
            None (Some (\<lambda>ys. Inl (Raised ''boom''))) ()) = Inl (Raised ''boom'')"
    using raised [THEN conjunct2, THEN conjunct2, THEN conjunct2, THEN conjunct2, THEN conjunct2,
        rule_format, of tr1 "\<lambda>ys. Inl (Raised ''boom'')" "Raised ''boom''"] R
    by simp
  ultimately show ?thesis by blast
qed



end
